theory Spec2Isabelle
  imports Main "HOL-Library.Word" "HOL-Library.AList"
begin

unbundle bit_operations_syntax

section \<open>Bytes, strings and the runtime's codecs\<close>

text \<open>
  A Node \<open>Buffer\<close> is a list of bytes. A JavaScript string is a list of UTF-16 code
  units, so \<open>length\<close> is \<open>String.prototype.length\<close>. Numbers are IEEE-754 doubles,
  kept as their 64-bit pattern: \<open>writeDoubleLE\<close> and \<open>readDoubleLE\<close> move exactly
  that pattern.
\<close>

type_synonym byte = "8 word"
type_synonym buffer = "byte list"
type_synonym jsstring = "16 word list"

definition byte :: "nat \<Rightarrow> byte" where
  "byte n = of_nat n"

definition cu :: "nat \<Rightarrow> 16 word" where
  "cu n = of_nat n"

definition str :: "string \<Rightarrow> jsstring" where
  "str s = map (\<lambda>c. cu (of_char c)) s"

subsection \<open>\<open>Buffer.from(s, 'utf8')\<close> and \<open>buf.toString('utf8')\<close>\<close>

definition is_high :: "nat \<Rightarrow> bool" where
  "is_high n \<longleftrightarrow> 0xD800 \<le> n \<and> n < 0xDC00"

definition is_low :: "nat \<Rightarrow> bool" where
  "is_low n \<longleftrightarrow> 0xDC00 \<le> n \<and> n < 0xE000"

definition replacement_bytes :: buffer where
  "replacement_bytes = [0xEF, 0xBF, 0xBD]"

definition enc1 :: "nat \<Rightarrow> buffer" where
  "enc1 n = [byte n]"

definition enc2 :: "nat \<Rightarrow> buffer" where
  "enc2 n = [byte (0xC0 + n div 64), byte (0x80 + n mod 64)]"

definition enc3 :: "nat \<Rightarrow> buffer" where
  "enc3 n = [byte (0xE0 + n div 4096), byte (0x80 + n div 64 mod 64), byte (0x80 + n mod 64)]"

definition enc4 :: "nat \<Rightarrow> buffer" where
  "enc4 n = [byte (0xF0 + n div 262144), byte (0x80 + n div 4096 mod 64),
             byte (0x80 + n div 64 mod 64), byte (0x80 + n mod 64)]"

definition pair_cp :: "nat \<Rightarrow> nat \<Rightarrow> nat" where
  "pair_cp h l = 0x10000 + (h - 0xD800) * 1024 + (l - 0xDC00)"

text \<open>
  Encoding a string to UTF-8: a surrogate pair is one code point of four bytes, a
  surrogate on its own is written as U+FFFD.
\<close>

fun utf8_encode :: "jsstring \<Rightarrow> buffer" where
  "utf8_encode [] = []"
| "utf8_encode (c # cs) =
     (if unat c < 0x80 then enc1 (unat c) @ utf8_encode cs
      else if unat c < 0x800 then enc2 (unat c) @ utf8_encode cs
      else if is_high (unat c) then
        (case cs of
           [] \<Rightarrow> replacement_bytes
         | d # ds \<Rightarrow>
             if is_low (unat d) then enc4 (pair_cp (unat c) (unat d)) @ utf8_encode ds
             else replacement_bytes @ utf8_encode cs)
      else if is_low (unat c) then replacement_bytes @ utf8_encode cs
      else enc3 (unat c) @ utf8_encode cs)"

definition cont :: "byte \<Rightarrow> bool" where
  "cont b \<longleftrightarrow> 0x80 \<le> unat b \<and> unat b \<le> 0xBF"

definition lo2 :: "nat \<Rightarrow> nat" where
  "lo2 n = (if n = 0xE0 then 0xA0 else if n = 0xF0 then 0x90 else 0x80)"

definition hi2 :: "nat \<Rightarrow> nat" where
  "hi2 n = (if n = 0xED then 0x9F else if n = 0xF4 then 0x8F else 0xBF)"

definition pair_units :: "nat \<Rightarrow> jsstring" where
  "pair_units cp = [cu (0xD800 + (cp - 0x10000) div 1024), cu (0xDC00 + (cp - 0x10000) mod 1024)]"

definition fffd :: "16 word" where
  "fffd = 0xFFFD"

text \<open>
  Decoding replaces every ill-formed sequence by U+FFFD and goes on at the first byte
  that is not part of it (the maximal subpart rule); a byte-order mark is kept.
\<close>

fun utf8_decode :: "buffer \<Rightarrow> jsstring" where
  "utf8_decode [] = []"
| "utf8_decode (b # bs) =
     (if unat b < 0x80 then cu (unat b) # utf8_decode bs
      else if 0xC2 \<le> unat b \<and> unat b \<le> 0xDF then
        (case bs of
           [] \<Rightarrow> [fffd]
         | b2 # r2 \<Rightarrow>
             if cont b2 then cu ((unat b - 0xC0) * 64 + (unat b2 - 0x80)) # utf8_decode r2
             else fffd # utf8_decode bs)
      else if 0xE0 \<le> unat b \<and> unat b \<le> 0xEF then
        (case bs of
           [] \<Rightarrow> [fffd]
         | b2 # r2 \<Rightarrow>
             if lo2 (unat b) \<le> unat b2 \<and> unat b2 \<le> hi2 (unat b) then
               (case r2 of
                  [] \<Rightarrow> [fffd]
                | b3 # r3 \<Rightarrow>
                    if cont b3 then
                      cu ((unat b - 0xE0) * 4096 + (unat b2 - 0x80) * 64 + (unat b3 - 0x80))
                        # utf8_decode r3
                    else fffd # utf8_decode r2)
             else fffd # utf8_decode bs)
      else if 0xF0 \<le> unat b \<and> unat b \<le> 0xF4 then
        (case bs of
           [] \<Rightarrow> [fffd]
         | b2 # r2 \<Rightarrow>
             if lo2 (unat b) \<le> unat b2 \<and> unat b2 \<le> hi2 (unat b) then
               (case r2 of
                  [] \<Rightarrow> [fffd]
                | b3 # r3 \<Rightarrow>
                    if cont b3 then
                      (case r3 of
                         [] \<Rightarrow> [fffd]
                       | b4 # r4 \<Rightarrow>
                           if cont b4 then
                             pair_units ((unat b - 0xF0) * 262144 + (unat b2 - 0x80) * 4096
                                          + (unat b3 - 0x80) * 64 + (unat b4 - 0x80))
                               @ utf8_decode r4
                           else fffd # utf8_decode r3)
                    else fffd # utf8_decode r2)
             else fffd # utf8_decode bs)
      else fffd # utf8_decode bs)"

text \<open>A well-formed string has no surrogate outside a high-low pair.\<close>

fun wf_utf16 :: "jsstring \<Rightarrow> bool" where
  "wf_utf16 [] = True"
| "wf_utf16 (c # cs) =
     (if is_high (unat c) then
        (case cs of [] \<Rightarrow> False | d # ds \<Rightarrow> is_low (unat d) \<and> wf_utf16 ds)
      else \<not> is_low (unat c) \<and> wf_utf16 cs)"


subsection \<open>Values\<close>

text \<open>
  The values a caller can pass to \<open>set\<close>. \<open>JObject\<close> lists the own enumerable
  properties in enumeration order (array indices first, ascending, then the other keys as
  created). \<open>JFunction\<close>, \<open>JSymbol\<close> and \<open>JBigInt\<close> are
  the values whose \<open>typeof\<close> is none of the supported ones.
\<close>

datatype jsvalue =
    JNull
  | JUndefined
  | JBoolean bool
  | JNumber "64 word"
  | JString jsstring
  | JBuffer buffer
  | JArray "jsvalue list"
  | JObject "(jsstring \<times> jsvalue) list"
  | JFunction
  | JSymbol
  | JBigInt int

datatype js_error =
    UnsupportedValueType
  | OutOfRange
  | TypeError
  | SyntaxError
  | BufferTooShort
  | LengthExceedsBuffer
  | UnknownTypeFlag
  | ShortRead
  | IOError
  | Unhandled

subsection \<open>Numbers as text\<close>

definition dbl_exp :: "64 word \<Rightarrow> nat" where
  "dbl_exp w = unat w div 2 ^ 52 mod 2048"

definition dbl_man :: "64 word \<Rightarrow> nat" where
  "dbl_man w = unat w mod 2 ^ 52"

definition dbl_neg :: "64 word \<Rightarrow> bool" where
  "dbl_neg w \<longleftrightarrow> 2 ^ 63 \<le> unat w"

text \<open>
  The integer a double stands for, when it is a non-zero integer below \<open>2 ^ 53\<close> in
  magnitude, or plus zero.
\<close>

definition int_of_double :: "64 word \<Rightarrow> int option" where
  "int_of_double w =
     (if dbl_exp w = 0 \<and> dbl_man w = 0 then (if dbl_neg w then None else Some 0)
      else if 1023 \<le> dbl_exp w \<and> dbl_exp w \<le> 1075
              \<and> (2 ^ 52 + dbl_man w) mod 2 ^ (1075 - dbl_exp w) = 0
      then Some ((if dbl_neg w then -1 else 1)
                 * int ((2 ^ 52 + dbl_man w) div 2 ^ (1075 - dbl_exp w)))
      else None)"

fun ilog2 :: "nat \<Rightarrow> nat" where
  "ilog2 n = (if n < 2 then 0 else Suc (ilog2 (n div 2)))"

fun dec_digits :: "nat \<Rightarrow> jsstring" where
  "dec_digits n = (if n < 10 then [cu (48 + n)] else dec_digits (n div 10) @ [cu (48 + n mod 10)])"

definition dec_int :: "int \<Rightarrow> jsstring" where
  "dec_int n = (if n < 0 then cu 45 # dec_digits (nat (- n)) else dec_digits (nat n))"

text \<open>
  The magnitude of a finite double is \<open>dbl_m w * 2 ^ dbl_q w\<close>.
\<close>

definition dbl_m :: "64 word \<Rightarrow> nat" where
  "dbl_m w = (if dbl_exp w = 0 then dbl_man w else 2 ^ 52 + dbl_man w)"

definition dbl_q :: "64 word \<Rightarrow> int" where
  "dbl_q w = (if dbl_exp w = 0 then - 1074 else int (dbl_exp w) - 1075)"

text \<open>
  Exact comparison of numbers \<open>a * 2 ^ b * 10 ^ c\<close> with integer exponents: both sides are
  scaled by the same powers until they are natural numbers.
\<close>

definition sc_nat :: "nat \<times> int \<times> int \<Rightarrow> int \<Rightarrow> int \<Rightarrow> nat" where
  "sc_nat x b0 c0 = (case x of (a, b, c) \<Rightarrow> a * 2 ^ nat (b - b0) * 10 ^ nat (c - c0))"

definition sc_le :: "nat \<times> int \<times> int \<Rightarrow> nat \<times> int \<times> int \<Rightarrow> bool" where
  "sc_le x y =
     (let b0 = min (fst (snd x)) (fst (snd y)); c0 = min (snd (snd x)) (snd (snd y))
      in sc_nat x b0 c0 \<le> sc_nat y b0 c0)"

definition sc_less :: "nat \<times> int \<times> int \<Rightarrow> nat \<times> int \<times> int \<Rightarrow> bool" where
  "sc_less x y \<longleftrightarrow> \<not> sc_le y x"

text \<open>
  \<open>rounds_to w s e\<close>: the decimal \<open>s * 10 ^ e\<close> is a number that rounds to the positive
  double \<open>w\<close> (to nearest, ties to the even significand): it lies between the midpoints
  to the neighbours of \<open>w\<close>, which belong to \<open>w\<close> when its significand is even. Below a
  power of two the neighbour is half as far.
\<close>

definition rounds_to :: "64 word \<Rightarrow> nat \<Rightarrow> int \<Rightarrow> bool" where
  "rounds_to w s e =
     (let m = dbl_m w; q = dbl_q w;
          lo = (4 * m - (if dbl_man w = 0 \<and> 1 < dbl_exp w then 1 else 2), q - 2, 0);
          hi = (4 * m + 2, q - 2, 0);
          v = (s, 0, e)
      in if even m then sc_le lo v \<and> sc_le v hi else sc_less lo v \<and> sc_less v hi)"

text \<open>The \<open>n\<close> with \<open>10 ^ (n - 1) \<le> w < 10 ^ n\<close>, for a positive double.\<close>

definition dec_exponent :: "64 word \<Rightarrow> int" where
  "dec_exponent w =
     (let x = (dbl_m w, dbl_q w, 0);
          g = ((int (ilog2 (dbl_m w)) + dbl_q w) * 30103) div 100000
      in if sc_less x (1, 0, g) then g
         else if sc_less x (1, 0, g + 1) then g + 1
         else g + 2)"

text \<open>\<open>\<lfloor>w / 10 ^ e\<rfloor>\<close> for a positive double.\<close>

definition dec_floor :: "64 word \<Rightarrow> int \<Rightarrow> nat" where
  "dec_floor w e =
     (dbl_m w * 2 ^ nat (dbl_q w) * 10 ^ nat (- e)) div (2 ^ nat (- dbl_q w) * 10 ^ nat e)"

text \<open>
  The decimal of \<open>k\<close> digits for \<open>w\<close>, if one rounds to \<open>w\<close>: of the two \<open>k\<close>-digit
  decimals around \<open>w\<close> the one that rounds to \<open>w\<close>, the closer one when both do, the even
  one when they are as close. The result is the digits as a number and the exponent \<open>n\<close>.
\<close>

definition shortest_at :: "64 word \<Rightarrow> int \<Rightarrow> nat \<Rightarrow> (nat \<times> int) option" where
  "shortest_at w n0 k =
     (let e = n0 - int k;
          lo = dec_floor w e;
          hi = lo + 1;
          x2 = (2 * dbl_m w, dbl_q w, 0);
          mid = (2 * lo + 1, 0, e);
          lo_ok = rounds_to w lo e;
          hi_ok = rounds_to w hi e;
          pick_hi = (hi_ok \<and> (\<not> lo_ok \<or> sc_less mid x2 \<or> (sc_le mid x2 \<and> odd lo)))
      in if pick_hi then Some (if hi = 10 ^ k then (10 ^ (k - 1), n0 + 1) else (hi, n0))
         else if lo_ok then Some (lo, n0)
         else None)"

fun first_some :: "('a \<Rightarrow> 'b option) \<Rightarrow> 'a list \<Rightarrow> 'b option" where
  "first_some f [] = None"
| "first_some f (x # xs) = (case f x of Some y \<Rightarrow> Some y | None \<Rightarrow> first_some f xs)"

text \<open>Seventeen digits always suffice.\<close>

definition shortest_decimal :: "64 word \<Rightarrow> nat \<times> int" where
  "shortest_decimal w =
     (let n0 = dec_exponent w in
      case first_some (shortest_at w n0) [1..<18] of
        Some sn \<Rightarrow> sn
      | None \<Rightarrow> (dec_floor w (n0 - 17), n0))"

text \<open>
  \<open>Number::toString\<close> of a positive finite double: the digits \<open>s\<close> and the exponent \<open>n\<close>
  laid out as the specification of the language says.
\<close>

definition Number_toString_pos :: "64 word \<Rightarrow> jsstring" where
  "Number_toString_pos w =
     (case shortest_decimal w of
        (s, n) \<Rightarrow>
          (let ds = dec_digits s; k = length ds in
           if int k \<le> n \<and> n \<le> 21 then ds @ replicate (nat (n - int k)) 0x30
           else if 0 < n \<and> n \<le> 21 then take (nat n) ds @ [0x2E] @ drop (nat n) ds
           else if - 6 < n \<and> n \<le> 0 then [0x30, 0x2E] @ replicate (nat (- n)) 0x30 @ ds
           else
             (let ex = n - 1;
                  sign = (if 0 \<le> ex then 0x2B else 0x2D);
                  exd = dec_digits (nat \<bar>ex\<bar>)
              in if k = 1 then ds @ [0x65, sign] @ exd
                 else hd ds # 0x2E # tl ds @ [0x65, sign] @ exd)))"

definition Number_toString :: "64 word \<Rightarrow> jsstring" where
  "Number_toString w =
     (if dbl_exp w = 2047 then
        (if dbl_man w \<noteq> 0 then str ''NaN''
         else if dbl_neg w then str ''-Infinity'' else str ''Infinity'')
      else if dbl_m w = 0 then str ''0''
      else (if dbl_neg w then [0x2D] else []) @ Number_toString_pos w)"

text \<open>Inside \<open>JSON.stringify\<close>, NaN and the infinities are written \<open>null\<close>.\<close>

definition Number_toJSON :: "64 word \<Rightarrow> jsstring" where
  "Number_toJSON w = (if dbl_exp w = 2047 then str ''null'' else Number_toString w)"

text \<open>
  The double nearest to \<open>a * 10 ^ c\<close>, ties to the even significand; above the largest
  double it is \<open>Infinity\<close>.
\<close>

definition double_of_decimal :: "nat \<Rightarrow> int \<Rightarrow> 64 word" where
  "double_of_decimal a c =
     (if a = 0 then 0
      else
        (let N = a * 10 ^ nat c;
             D = 10 ^ nat (- c);
             e0 = int (ilog2 N) - int (ilog2 D);
             e = (if sc_less (N, 0, 0) (D, e0, 0) then e0 - 1 else e0);
             q = max (e - 52) (- 1074);
             num = N * 2 ^ nat (- q);
             den = D * 2 ^ nat q;
             m0 = num div den;
             r = num mod den;
             m = (if den < 2 * r \<or> (2 * r = den \<and> odd m0) then m0 + 1 else m0)
         in if 2046 < q + 1075 then 0x7FF0000000000000
            else if m < 2 ^ 52 then of_nat m
            else of_nat (nat (q + 1075) * 2 ^ 52 + (m - 2 ^ 52))))"


subsection \<open>\<open>JSON.stringify\<close>\<close>

definition dquote :: "16 word" where "dquote = 0x22"
definition bslash :: "16 word" where "bslash = 0x5C"
definition comma :: "16 word" where "comma = 0x2C"
definition colon :: "16 word" where "colon = 0x3A"
definition lbracket :: "16 word" where "lbracket = 0x5B"
definition rbracket :: "16 word" where "rbracket = 0x5D"
definition lbrace :: "16 word" where "lbrace = 0x7B"
definition rbrace :: "16 word" where "rbrace = 0x7D"

definition hex_digit :: "nat \<Rightarrow> 16 word" where
  "hex_digit n = (if n < 10 then cu (48 + n) else cu (87 + n))"

definition u_escape :: "nat \<Rightarrow> jsstring" where
  "u_escape n = [bslash, 0x75, hex_digit (n div 4096), hex_digit (n div 256 mod 16),
                 hex_digit (n div 16 mod 16), hex_digit (n mod 16)]"

text \<open>
  \<open>QuoteJSONString\<close>: the short escapes, \<open>\uXXXX\<close> for the other control characters
  and for a surrogate outside a pair, every other code unit as it is.
\<close>

fun quote_chars :: "jsstring \<Rightarrow> jsstring" where
  "quote_chars [] = []"
| "quote_chars (c # cs) =
     (if unat c = 8 then [bslash, 0x62] @ quote_chars cs
      else if unat c = 9 then [bslash, 0x74] @ quote_chars cs
      else if unat c = 10 then [bslash, 0x6E] @ quote_chars cs
      else if unat c = 12 then [bslash, 0x66] @ quote_chars cs
      else if unat c = 13 then [bslash, 0x72] @ quote_chars cs
      else if c = dquote then [bslash, dquote] @ quote_chars cs
      else if c = bslash then [bslash, bslash] @ quote_chars cs
      else if unat c < 0x20 then u_escape (unat c) @ quote_chars cs
      else if is_high (unat c) then
        (case cs of
           [] \<Rightarrow> u_escape (unat c)
         | d # ds \<Rightarrow>
             if is_low (unat d) then c # d # quote_chars ds
             else u_escape (unat c) @ quote_chars cs)
      else if is_low (unat c) then u_escape (unat c) @ quote_chars cs
      else c # quote_chars cs)"

definition QuoteJSONString :: "jsstring \<Rightarrow> jsstring" where
  "QuoteJSONString s = dquote # quote_chars s @ [dquote]"

fun join_commas :: "jsstring list \<Rightarrow> jsstring" where
  "join_commas [] = []"
| "join_commas [t] = t"
| "join_commas (t # u # ts) = t @ comma # join_commas (u # ts)"

text \<open>A \<open>Buffer\<close> has a \<open>toJSON\<close> method: it is written as a plain object.\<close>

definition Buffer_toJSON :: "buffer \<Rightarrow> jsstring" where
  "Buffer_toJSON bs =
     lbrace # QuoteJSONString (str ''type'') @ colon # QuoteJSONString (str ''Buffer'') @ comma
       # QuoteJSONString (str ''data'') @ colon
       # lbracket # join_commas (map (\<lambda>b. dec_digits (unat b)) bs) @ [rbracket, rbrace]"

text \<open>
  \<open>SerializeJSONProperty\<close>: \<open>None\<close> is the \<open>undefined\<close> it returns for
  \<open>undefined\<close>, functions and symbols; those are written \<open>null\<close> inside an array
  and left out of an object. A BigInt throws.
\<close>

fun JSON_property :: "jsvalue \<Rightarrow> js_error + jsstring option"
  and JSON_elements :: "jsvalue list \<Rightarrow> js_error + jsstring list"
  and JSON_members :: "(jsstring \<times> jsvalue) list \<Rightarrow> js_error + jsstring list" where
  "JSON_property JNull = Inr (Some (str ''null''))"
| "JSON_property JUndefined = Inr None"
| "JSON_property (JBoolean b) = Inr (Some (if b then str ''true'' else str ''false''))"
| "JSON_property (JNumber w) = Inr (Some (Number_toJSON w))"
| "JSON_property (JString s) = Inr (Some (QuoteJSONString s))"
| "JSON_property (JBuffer bs) = Inr (Some (Buffer_toJSON bs))"
| "JSON_property (JArray xs) =
     (case JSON_elements xs of
        Inl e \<Rightarrow> Inl e
      | Inr ts \<Rightarrow> Inr (Some (lbracket # join_commas ts @ [rbracket])))"
| "JSON_property (JObject ms) =
     (case JSON_members ms of
        Inl e \<Rightarrow> Inl e
      | Inr ts \<Rightarrow> Inr (Some (lbrace # join_commas ts @ [rbrace])))"
| "JSON_property JFunction = Inr None"
| "JSON_property JSymbol = Inr None"
| "JSON_property (JBigInt n) = Inl TypeError"
| "JSON_elements [] = Inr []"
| "JSON_elements (x # xs) =
     (case JSON_property x of
        Inl e \<Rightarrow> Inl e
      | Inr p \<Rightarrow>
          (case JSON_elements xs of
             Inl e \<Rightarrow> Inl e
           | Inr ts \<Rightarrow> Inr ((case p of None \<Rightarrow> str ''null'' | Some t \<Rightarrow> t) # ts)))"
| "JSON_members [] = Inr []"
| "JSON_members (m # ms) =
     (case JSON_property (snd m) of
        Inl e \<Rightarrow> Inl e
      | Inr p \<Rightarrow>
          (case JSON_members ms of
             Inl e \<Rightarrow> Inl e
           | Inr ts \<Rightarrow>
               Inr (case p of
                      None \<Rightarrow> ts
                    | Some t \<Rightarrow> (QuoteJSONString (fst m) @ colon # t) # ts)))"

definition JSON_stringify :: "jsvalue \<Rightarrow> js_error + jsstring option" where
  "JSON_stringify v = JSON_property v"


subsection \<open>\<open>JSON.parse\<close>\<close>

definition is_ws :: "16 word \<Rightarrow> bool" where
  "is_ws c \<longleftrightarrow> c = 0x20 \<or> c = 0x09 \<or> c = 0x0A \<or> c = 0x0D"

definition skip_ws :: "jsstring \<Rightarrow> jsstring" where
  "skip_ws s = dropWhile is_ws s"

definition hex_val :: "16 word \<Rightarrow> nat option" where
  "hex_val c =
     (if 48 \<le> unat c \<and> unat c \<le> 57 then Some (unat c - 48)
      else if 97 \<le> unat c \<and> unat c \<le> 102 then Some (unat c - 87)
      else if 65 \<le> unat c \<and> unat c \<le> 70 then Some (unat c - 55)
      else None)"

definition unescape :: "16 word \<Rightarrow> 16 word option" where
  "unescape e =
     (if e = dquote then Some dquote
      else if e = bslash then Some bslash
      else if e = 0x2F then Some 0x2F
      else if e = 0x62 then Some 8
      else if e = 0x66 then Some 12
      else if e = 0x6E then Some 10
      else if e = 0x72 then Some 13
      else if e = 0x74 then Some 9
      else None)"

definition cons_char :: "16 word \<Rightarrow> js_error + jsstring \<times> jsstring \<Rightarrow> js_error + jsstring \<times> jsstring" where
  "cons_char x res = (case res of Inl e \<Rightarrow> Inl e | Inr (t, r) \<Rightarrow> Inr (x # t, r))"

text \<open>The characters of a string literal after its opening quote, and what follows it.\<close>

fun parse_chars :: "jsstring \<Rightarrow> js_error + jsstring \<times> jsstring" where
  "parse_chars [] = Inl SyntaxError"
| "parse_chars (c # r) =
     (if c = dquote then Inr ([], r)
      else if c = bslash then
        (case r of
           [] \<Rightarrow> Inl SyntaxError
         | e # r2 \<Rightarrow>
             if e = 0x75 then
               (case r2 of
                  h1 # h2 # h3 # h4 # r3 \<Rightarrow>
                    (case (hex_val h1, hex_val h2, hex_val h3, hex_val h4) of
                       (Some a, Some b, Some c', Some d) \<Rightarrow>
                         cons_char (cu (a * 4096 + b * 256 + c' * 16 + d)) (parse_chars r3)
                     | _ \<Rightarrow> Inl SyntaxError)
                | _ \<Rightarrow> Inl SyntaxError)
             else
               (case unescape e of
                  Some x \<Rightarrow> cons_char x (parse_chars r2)
                | None \<Rightarrow> Inl SyntaxError))
      else if unat c < 0x20 then Inl SyntaxError
      else cons_char c (parse_chars r))"

definition is_digit :: "16 word \<Rightarrow> bool" where
  "is_digit c \<longleftrightarrow> 48 \<le> unat c \<and> unat c \<le> 57"

definition digits_val :: "jsstring \<Rightarrow> nat" where
  "digits_val ds = foldl (\<lambda>a c. a * 10 + (unat c - 48)) 0 ds"

text \<open>
  A number token: the integer part, a fraction and an exponent when they follow, read as
  the double nearest to the decimal they spell.
\<close>

definition parse_fraction :: "jsstring \<Rightarrow> js_error + jsstring \<times> jsstring" where
  "parse_fraction s =
     (case s of
        [] \<Rightarrow> Inr ([], [])
      | c # r \<Rightarrow>
          if c = 0x2E then
            (let fp = takeWhile is_digit r in
             if fp = [] then Inl SyntaxError else Inr (fp, drop (length fp) r))
          else Inr ([], s))"

definition parse_exponent :: "jsstring \<Rightarrow> js_error + int \<times> jsstring" where
  "parse_exponent s =
     (case s of
        [] \<Rightarrow> Inr (0, [])
      | c # r \<Rightarrow>
          if c = 0x65 \<or> c = 0x45 then
            (let neg = (r \<noteq> [] \<and> hd r = 0x2D);
                 r2 = (if r \<noteq> [] \<and> (hd r = 0x2B \<or> hd r = 0x2D) then tl r else r);
                 ds = takeWhile is_digit r2
             in if ds = [] then Inl SyntaxError
                else Inr ((if neg then - int (digits_val ds) else int (digits_val ds)),
                          drop (length ds) r2))
          else Inr (0, s))"

definition negate :: "64 word \<Rightarrow> 64 word" where
  "negate w = w + 0x8000000000000000"

definition parse_digits :: "bool \<Rightarrow> jsstring \<Rightarrow> js_error + jsvalue \<times> jsstring" where
  "parse_digits neg s =
     (case s of
        [] \<Rightarrow> Inl SyntaxError
      | d # r \<Rightarrow>
          if \<not> is_digit d then Inl SyntaxError
          else
            (let ip = (if d = 0x30 then [d] else takeWhile is_digit s) in
             case parse_fraction (drop (length ip) s) of
               Inl e \<Rightarrow> Inl e
             | Inr (fp, r2) \<Rightarrow>
                 (case parse_exponent r2 of
                    Inl e \<Rightarrow> Inl e
                  | Inr (ex, r3) \<Rightarrow>
                      (let w = double_of_decimal (digits_val (ip @ fp)) (ex - int (length fp))
                       in Inr (JNumber (if neg then negate w else w), r3)))))"

definition parse_number :: "jsstring \<Rightarrow> js_error + jsvalue \<times> jsstring" where
  "parse_number s =
     (case s of
        [] \<Rightarrow> Inl SyntaxError
      | c # r \<Rightarrow> if c = 0x2D then parse_digits True r else parse_digits False s)"

definition parse_literal :: "jsstring \<Rightarrow> jsvalue \<Rightarrow> jsstring \<Rightarrow> js_error + jsvalue \<times> jsstring" where
  "parse_literal lit v s =
     (if take (length lit) s = lit then Inr (v, drop (length lit) s) else Inl SyntaxError)"

text \<open>
  The own properties of an object are enumerated with the array indices first, in
  ascending order, then the other keys in the order they were created. \<open>obj_set\<close> is
  the assignment \<open>o[k] = v\<close> on a list of properties in that order: a key already there
  keeps its place.
\<close>

definition array_index :: "jsstring \<Rightarrow> nat option" where
  "array_index k =
     (if k \<noteq> [] \<and> list_all is_digit k \<and> (hd k \<noteq> 0x30 \<or> length k = 1)
         \<and> digits_val k < 4294967295
      then Some (digits_val k) else None)"

fun obj_insert_index :: "nat \<Rightarrow> jsstring \<Rightarrow> 'v \<Rightarrow> (jsstring \<times> 'v) list \<Rightarrow> (jsstring \<times> 'v) list" where
  "obj_insert_index i k v [] = [(k, v)]"
| "obj_insert_index i k v (p # ps) =
     (case array_index (fst p) of
        Some j \<Rightarrow> if j < i then p # obj_insert_index i k v ps else (k, v) # p # ps
      | None \<Rightarrow> (k, v) # p # ps)"

definition obj_set :: "jsstring \<Rightarrow> 'v \<Rightarrow> (jsstring \<times> 'v) list \<Rightarrow> (jsstring \<times> 'v) list" where
  "obj_set k v ms =
     (if map_of ms k \<noteq> None then AList.update k v ms
      else
        (case array_index k of
           Some i \<Rightarrow> obj_insert_index i k v ms
         | None \<Rightarrow> ms @ [(k, v)]))"

text \<open>
  The recursive descent over arrays and objects. The first argument bounds the number of
  nested calls; \<open>JSON_parse\<close> starts it above the length of the text, and every call
  consumes a character. A member is assigned to the object built so far.
\<close>

fun parse_value :: "nat \<Rightarrow> jsstring \<Rightarrow> js_error + jsvalue \<times> jsstring"
  and parse_elems :: "nat \<Rightarrow> jsstring \<Rightarrow> js_error + jsvalue list \<times> jsstring"
  and parse_members :: "nat \<Rightarrow> (jsstring \<times> jsvalue) list \<Rightarrow> jsstring
                         \<Rightarrow> js_error + (jsstring \<times> jsvalue) list \<times> jsstring" where
  "parse_value 0 s = Inl OutOfRange"
| "parse_value (Suc f) s =
     (case skip_ws s of
        [] \<Rightarrow> Inl SyntaxError
      | c # r \<Rightarrow>
          if c = lbracket then
            (case skip_ws r of
               [] \<Rightarrow> Inl SyntaxError
             | c2 # r2 \<Rightarrow>
                 if c2 = rbracket then Inr (JArray [], r2)
                 else (case parse_elems f r of
                         Inl e \<Rightarrow> Inl e
                       | Inr (vs, r3) \<Rightarrow> Inr (JArray vs, r3)))
          else if c = lbrace then
            (case skip_ws r of
               [] \<Rightarrow> Inl SyntaxError
             | c2 # r2 \<Rightarrow>
                 if c2 = rbrace then Inr (JObject [], r2)
                 else (case parse_members f [] r of
                         Inl e \<Rightarrow> Inl e
                       | Inr (ms, r3) \<Rightarrow> Inr (JObject ms, r3)))
          else if c = dquote then
            (case parse_chars r of
               Inl e \<Rightarrow> Inl e
             | Inr (t, r2) \<Rightarrow> Inr (JString t, r2))
          else if c = 0x6E then parse_literal (str ''null'') JNull (c # r)
          else if c = 0x74 then parse_literal (str ''true'') (JBoolean True) (c # r)
          else if c = 0x66 then parse_literal (str ''false'') (JBoolean False) (c # r)
          else if c = 0x2D \<or> is_digit c then parse_number (c # r)
          else Inl SyntaxError)"
| "parse_elems 0 s = Inl OutOfRange"
| "parse_elems (Suc f) s =
     (case parse_value f s of
        Inl e \<Rightarrow> Inl e
      | Inr (v, r) \<Rightarrow>
          (case skip_ws r of
             [] \<Rightarrow> Inl SyntaxError
           | c # r2 \<Rightarrow>
               if c = comma then
                 (case parse_elems f r2 of
                    Inl e \<Rightarrow> Inl e
                  | Inr (vs, r3) \<Rightarrow> Inr (v # vs, r3))
               else if c = rbracket then Inr ([v], r2)
               else Inl SyntaxError))"
| "parse_members 0 acc s = Inl OutOfRange"
| "parse_members (Suc f) acc s =
     (case skip_ws s of
        [] \<Rightarrow> Inl SyntaxError
      | q # r \<Rightarrow>
          if q \<noteq> dquote then Inl SyntaxError
          else
            (case parse_chars r of
               Inl e \<Rightarrow> Inl e
             | Inr (k, r2) \<Rightarrow>
                 (case skip_ws r2 of
                    [] \<Rightarrow> Inl SyntaxError
                  | c # r3 \<Rightarrow>
                      if c \<noteq> colon then Inl SyntaxError
                      else
                        (case parse_value f r3 of
                           Inl e \<Rightarrow> Inl e
                         | Inr (v, r4) \<Rightarrow>
                             (case skip_ws r4 of
                                [] \<Rightarrow> Inl SyntaxError
                              | c2 # r5 \<Rightarrow>
                                  if c2 = comma then parse_members f (obj_set k v acc) r5
                                  else if c2 = rbrace then Inr (obj_set k v acc, r5)
                                  else Inl SyntaxError)))))"

definition JSON_parse :: "jsstring \<Rightarrow> js_error + jsvalue" where
  "JSON_parse s =
     (case parse_value (Suc (length s)) s of
        Inl e \<Rightarrow> Inl e
      | Inr (v, r) \<Rightarrow> if skip_ws r = [] then Inr v else Inl SyntaxError)"


section \<open>Storage: the serializer\<close>

definition TYPE_NULL :: byte where "TYPE_NULL = 0"
definition TYPE_UNDEFINED :: byte where "TYPE_UNDEFINED = 1"
definition TYPE_BOOLEAN :: byte where "TYPE_BOOLEAN = 2"
definition TYPE_NUMBER :: byte where "TYPE_NUMBER = 3"
definition TYPE_STRING :: byte where "TYPE_STRING = 4"
definition TYPE_BUFFER :: byte where "TYPE_BUFFER = 5"
definition TYPE_OBJECT :: byte where "TYPE_OBJECT = 6"
definition TYPE_ARRAY :: byte where "TYPE_ARRAY = 7"

definition writeUInt32LE :: "nat \<Rightarrow> buffer" where
  "writeUInt32LE n = [byte (n mod 256), byte (n div 256 mod 256),
                      byte (n div 65536 mod 256), byte (n div 16777216 mod 256)]"

text \<open>Reading past the end of a buffer throws.\<close>

definition readUInt32LE :: "buffer \<Rightarrow> nat \<Rightarrow> js_error + nat" where
  "readUInt32LE buf off =
     (case take 4 (drop off buf) of
        [a, b, c, d] \<Rightarrow> Inr (unat a + unat b * 256 + unat c * 65536 + unat d * 16777216)
      | _ \<Rightarrow> Inl OutOfRange)"

definition writeDoubleLE :: "64 word \<Rightarrow> buffer" where
  "writeDoubleLE w = map (\<lambda>i. byte (unat w div 256 ^ i mod 256)) [0..<8]"

definition readDoubleLE :: "buffer \<Rightarrow> js_error + 64 word" where
  "readDoubleLE buf =
     (if length buf < 8 then Inl OutOfRange
      else Inr (of_nat (\<Sum>i\<leftarrow>[0..<8]. unat (buf ! i) * 256 ^ i)))"

text \<open>
  The chain of tests of \<open>serializeValue\<close>, in its order: the type tag and the payload.
  \<open>JSON.stringify\<close> of an array or an object always returns a string or throws.
\<close>

fun type_and_data :: "jsvalue \<Rightarrow> js_error + byte \<times> buffer" where
  "type_and_data JNull = Inr (TYPE_NULL, [])"
| "type_and_data JUndefined = Inr (TYPE_UNDEFINED, [])"
| "type_and_data (JBoolean b) = Inr (TYPE_BOOLEAN, [if b then 1 else 0])"
| "type_and_data (JNumber w) = Inr (TYPE_NUMBER, writeDoubleLE w)"
| "type_and_data (JString s) = Inr (TYPE_STRING, utf8_encode s)"
| "type_and_data (JBuffer bs) = Inr (TYPE_BUFFER, bs)"
| "type_and_data (JArray xs) =
     (case JSON_stringify (JArray xs) of
        Inl e \<Rightarrow> Inl e
      | Inr None \<Rightarrow> Inl TypeError
      | Inr (Some t) \<Rightarrow> Inr (TYPE_ARRAY, utf8_encode t))"
| "type_and_data (JObject ms) =
     (case JSON_stringify (JObject ms) of
        Inl e \<Rightarrow> Inl e
      | Inr None \<Rightarrow> Inl TypeError
      | Inr (Some t) \<Rightarrow> Inr (TYPE_OBJECT, utf8_encode t))"
| "type_and_data JFunction = Inl UnsupportedValueType"
| "type_and_data JSymbol = Inl UnsupportedValueType"
| "type_and_data (JBigInt n) = Inl UnsupportedValueType"

text \<open>The header is the tag and the payload length; \<open>writeUInt32LE\<close> throws above \<open>2^32 - 1\<close>.\<close>

definition serializeValue :: "jsvalue \<Rightarrow> js_error + buffer" where
  "serializeValue v =
     (case type_and_data v of
        Inl e \<Rightarrow> Inl e
      | Inr (type, dataBuffer) \<Rightarrow>
          if 0xFFFFFFFF < length dataBuffer then Inl OutOfRange
          else Inr (type # writeUInt32LE (length dataBuffer) @ dataBuffer))"

definition deserializeValue :: "buffer \<Rightarrow> js_error + jsvalue" where
  "deserializeValue bufferWithHeader =
     (if length bufferWithHeader < 5 then Inl BufferTooShort
      else
        (case readUInt32LE bufferWithHeader 1 of
           Inl e \<Rightarrow> Inl e
         | Inr dataLength \<Rightarrow>
             if length bufferWithHeader < 5 + dataLength then Inl LengthExceedsBuffer
             else
               (let type = hd bufferWithHeader;
                    dataBuffer = take dataLength (drop 5 bufferWithHeader)
                in if type = TYPE_NULL then Inr JNull
                   else if type = TYPE_UNDEFINED then Inr JUndefined
                   else if type = TYPE_BOOLEAN then
                     Inr (JBoolean (dataBuffer \<noteq> [] \<and> hd dataBuffer = 1))
                   else if type = TYPE_NUMBER then
                     (case readDoubleLE dataBuffer of
                        Inl e \<Rightarrow> Inl e
                      | Inr w \<Rightarrow> Inr (JNumber w))
                   else if type = TYPE_STRING then Inr (JString (utf8_decode dataBuffer))
                   else if type = TYPE_BUFFER then Inr (JBuffer dataBuffer)
                   else if type = TYPE_OBJECT \<or> type = TYPE_ARRAY then
                     JSON_parse (utf8_decode dataBuffer)
                   else Inl UnknownTypeFlag)))"

fun getValueType :: "jsvalue \<Rightarrow> js_error + byte" where
  "getValueType JNull = Inr TYPE_NULL"
| "getValueType JUndefined = Inr TYPE_UNDEFINED"
| "getValueType (JBoolean b) = Inr TYPE_BOOLEAN"
| "getValueType (JNumber w) = Inr TYPE_NUMBER"
| "getValueType (JString s) = Inr TYPE_STRING"
| "getValueType (JBuffer bs) = Inr TYPE_BUFFER"
| "getValueType (JArray xs) = Inr TYPE_ARRAY"
| "getValueType (JObject ms) = Inr TYPE_OBJECT"
| "getValueType JFunction = Inl UnsupportedValueType"
| "getValueType JSymbol = Inl UnsupportedValueType"
| "getValueType (JBigInt n) = Inl UnsupportedValueType"


section \<open>The state of one engine\<close>

text \<open>
  A JavaScript \<open>Map\<close> is an association list in insertion order: \<open>map.set\<close> is
  \<open>AList.update\<close> (a key already there keeps its place), \<open>map.delete\<close> is
  \<open>AList.delete\<close>, \<open>map.get\<close> is \<open>map_of\<close>. A \<open>Set\<close> is a list without
  repetition, in insertion order.
\<close>

type_synonym key = jsstring

definition map_has :: "('k \<times> 'v) list \<Rightarrow> 'k \<Rightarrow> bool" where
  "map_has m k \<longleftrightarrow> map_of m k \<noteq> None"

definition set_add :: "'a \<Rightarrow> 'a list \<Rightarrow> 'a list" where
  "set_add k ks = (if k \<in> set ks then ks else ks @ [k])"

text \<open>Record metadata: the value the Index holds for a key. Times are in milliseconds.\<close>

record meta =
  m_offset :: nat
  m_size :: nat
  m_type :: byte
  m_expiry :: "int option"

definition WAL_OP_SET :: byte where "WAL_OP_SET = 1"
definition WAL_OP_DELETE :: byte where "WAL_OP_DELETE = 2"
definition WAL_ENTRY_HEADER_SIZE :: nat where "WAL_ENTRY_HEADER_SIZE = 1 + 4"

text \<open>
  A pending change \<open>{ op, meta }\<close>. \<open>op\<close> is \<open>None\<close> when the caller passed
  \<open>undefined\<close>, \<open>c_meta\<close> is \<open>None\<close> when no metadata was passed.
\<close>

record change =
  c_op :: "byte option"
  c_meta :: "meta option"

record ttl_entry =
  t_expiry :: int
  t_timeout :: nat

record timer =
  tm_key :: key
  tm_expiry :: int

datatype event =
    Ready nat | Error | Warn | Log
  | EvSet key jsvalue | EvGet key jsvalue | Miss key | EvDelete key | Expired key
  | DataFlush nat | IndexWalFlush nat
  | CheckpointStart | CheckpointEnd nat
  | CompactStart | CompactEnd nat
  | Clear nat | Closing | Close
  | WalReplayed nat nat

text \<open>
  The file-system calls of the engine that can fail. Which of them fail is part of the
  state (\<open>faults\<close>): it is fixed while one operation runs and may change between
  operations.
\<close>

datatype fs_call =
    DataWrite | DataRead | DataStat | DataFsync | DataTruncate | DataReopen
  | WalWrite | WalFsync | WalStat | WalRead | WalTruncate
  | TmpOpen | TmpWrite | TmpFsync | TmpRename | TmpUnlink
  | CompactOpen | CompactWrite | CompactFsync | CompactRename

record options =
  maxMemoryKeys :: "nat option"
  defaultTTL :: "int option"
  syncOnWrite :: bool
  walSizeThreshold :: nat

record stats =
  reads :: nat
  writes :: nat
  deletes :: nat
  hits :: nat
  misses :: nat
  diskReads :: nat
  lastAccess :: int
  bytesWrittenToDataFile :: nat
  bytesReadFromDataFile :: nat
  bytesWrittenToWAL :: nat
  compactions :: nat
  lastCompactionTime :: int
  wastedSpace :: nat
  indexSizeBytes :: nat
  walSizeBytes :: nat
  checkpoints :: nat
  lastCheckpointTime :: int

text \<open>
  \<open>maxMemoryKeys = None\<close> is \<open>Infinity\<close>, \<open>defaultTTL = None\<close> is \<open>null\<close>.
  \<open>dataFile\<close>, \<open>walFile\<close> are the contents of the Data Log and of the WAL,
  \<open>indexFile\<close> and \<open>tmpIndexFile\<close> the text of the base index file and of
  \<open><indexPath>.tmp\<close>, \<open>compactingFile\<close> the contents of \<open><dbPath>.compacting\<close>,
  each when the file exists.
  \<open>dataFd\<close> and \<open>walFd\<close> say whether the descriptor is open (not \<open>null\<close>).
  \<open>timers\<close> are the pending \<open>setTimeout\<close> callbacks by handle, \<open>now\<close> is
  \<open>Date.now()\<close>. \<open>events\<close> is what was emitted, oldest first; listeners are outside
  the engine and do not call back into it. \<open>errorListener\<close> says whether a listener
  for \<open>'error'\<close> is registered on the engine; a new engine has none.
\<close>

record kv =
  opts :: options
  stats :: stats
  store :: "(key \<times> jsvalue) list"
  lruKeys :: "key list"
  dirtyDataKeys :: "key list"
  ttlMap :: "(key \<times> ttl_entry) list"
  timers :: "(nat \<times> timer) list"
  nextTimer :: nat
  index :: "(key \<times> meta) list"
  pendingChanges :: "(key \<times> change) list"
  isCheckpointing :: bool
  isClosing :: bool
  isCompacting :: bool
  flushDataPending :: bool
  flushIndexPending :: bool
  dataFile :: buffer
  dataFd :: bool
  walFile :: buffer
  walFd :: bool
  indexFile :: "jsstring option"
  tmpIndexFile :: "jsstring option"
  compactingFile :: "buffer option"
  events :: "event list"
  faults :: "fs_call set"
  now :: int
  errorListener :: bool

definition emit :: "event \<Rightarrow> kv \<Rightarrow> kv" where
  "emit e s = s\<lparr>events := events s @ [e]\<rparr>"

text \<open>
  \<open>emit('error', err)\<close>: the engine is a Node \<open>EventEmitter\<close>, and an \<open>'error'\<close>
  event that no listener is registered for is thrown at the place of the \<open>emit\<close>.
\<close>

definition emit_error :: "kv \<Rightarrow> (js_error + unit) \<times> kv" where
  "emit_error s = (if errorListener s then Inr () else Inl Unhandled, emit Error s)"

definition fails :: "fs_call \<Rightarrow> kv \<Rightarrow> bool" where
  "fails c s \<longleftrightarrow> c \<in> faults s"

text \<open>
  \<open>fs.writeSync(fd, buf, 0, buf.length, position)\<close> on the Data Log, the WAL and the
  temporary Data Log of \<open>compact\<close>. All three are opened with the flag \<open>'a+'\<close>: the
  descriptor is in append mode, where (on Linux) the position is ignored and the bytes go to
  the end of the file.
\<close>

definition append_write :: "buffer \<Rightarrow> nat \<Rightarrow> buffer \<Rightarrow> buffer" where
  "append_write f position bs = f @ bs"


section \<open>Storage: the Data Log\<close>

text \<open>
  \<open>writeData\<close>: a value that does not serialize is reported and re-thrown; otherwise
  the record is written and metadata with \<open>currentOffset\<close> returned. Both handlers emit
  \<open>'error'\<close> and then throw, so they leave the function with or without a listener.
\<close>

definition writeData :: "key \<Rightarrow> jsvalue \<Rightarrow> nat \<Rightarrow> kv \<Rightarrow> (js_error + meta) \<times> kv" where
  "writeData k v currentOffset s =
     (case serializeValue v of
        Inl e \<Rightarrow> (Inl e, emit Error s)
      | Inr serializedValue \<Rightarrow>
          if \<not> dataFd s \<or> fails DataWrite s then (Inl IOError, emit Error s)
          else
            (let s1 = s\<lparr>dataFile := append_write (dataFile s) currentOffset serializedValue,
                        stats := (stats s)\<lparr>bytesWrittenToDataFile :=
                                   bytesWrittenToDataFile (stats s) + length serializedValue\<rparr>\<rparr>
             in case getValueType v of
                  Inl e \<Rightarrow> (Inl e, emit Error s1)
                | Inr t \<Rightarrow>
                    (Inr \<lparr>m_offset = currentOffset, m_size = length serializedValue,
                          m_type = t, m_expiry = None\<rparr>, s1)))"

definition readValue :: "meta \<Rightarrow> kv \<Rightarrow> (js_error + jsvalue) \<times> kv" where
  "readValue m s =
     (if \<not> dataFd s \<or> fails DataRead s then (Inl IOError, s)
      else
        (let bufferWithHeader = take (m_size m) (drop (m_offset m) (dataFile s))
         in if length bufferWithHeader \<noteq> m_size m then (Inl ShortRead, s)
            else (deserializeValue bufferWithHeader,
                  s\<lparr>stats := (stats s)\<lparr>bytesReadFromDataFile :=
                             bytesReadFromDataFile (stats s) + m_size m\<rparr>\<rparr>)))"

definition liveDataSize :: "(key \<times> meta) list \<Rightarrow> nat" where
  "liveDataSize currentIndexMap = (\<Sum>p\<leftarrow>currentIndexMap. m_size (snd p))"


section \<open>IndexManager: pending changes, WAL and checkpoint\<close>

definition addChange :: "key \<Rightarrow> byte option \<Rightarrow> meta option \<Rightarrow> kv \<Rightarrow> kv" where
  "addChange k op m s =
     s\<lparr>pendingChanges := AList.update k \<lparr>c_op = op, c_meta = m\<rparr> (pendingChanges s)\<rparr>"

definition updateWalSizeStat :: "kv \<Rightarrow> kv" where
  "updateWalSizeStat s =
     (if walFd s then
        (if fails WalStat s then s\<lparr>stats := (stats s)\<lparr>walSizeBytes := 0\<rparr>\<rparr>
         else s\<lparr>stats := (stats s)\<lparr>walSizeBytes := length (walFile s)\<rparr>\<rparr>)
      else s\<lparr>stats := (stats s)\<lparr>walSizeBytes := 0\<rparr>\<rparr>)"

subsection \<open>Metadata as JSON text\<close>

text \<open>
  \<open>JSON.stringify(meta)\<close>. The fields are integers, written by \<open>Number::toString\<close> as
  their decimal digits.
\<close>

definition json_field :: "string \<Rightarrow> jsstring \<Rightarrow> jsstring" where
  "json_field name t = QuoteJSONString (str name) @ colon # t"

definition meta_json :: "meta \<Rightarrow> jsstring" where
  "meta_json m =
     lbrace # join_commas
       ([json_field ''offset'' (dec_int (int (m_offset m))),
         json_field ''size'' (dec_int (int (m_size m))),
         json_field ''type'' (dec_int (int (unat (m_type m))))]
        @ (case m_expiry m of None \<Rightarrow> [] | Some e \<Rightarrow> [json_field ''expiry'' (dec_int e)]))
     @ [rbrace]"

definition prop_int :: "(jsstring \<times> jsvalue) list \<Rightarrow> string \<Rightarrow> int option" where
  "prop_int ms name =
     (case map_of ms (str name) of
        Some (JNumber w) \<Rightarrow> int_of_double w
      | _ \<Rightarrow> None)"

text \<open>
  The Index of this development holds metadata records, so a parsed document is read back
  as one: the three numeric fields and, when present, a numeric \<open>expiry\<close>.
\<close>

definition meta_of_js :: "jsvalue \<Rightarrow> meta option" where
  "meta_of_js v =
     (case v of
        JObject ms \<Rightarrow>
          (case (prop_int ms ''offset'', prop_int ms ''size'', prop_int ms ''type'') of
             (Some off, Some sz, Some ty) \<Rightarrow>
               if off < 0 \<or> sz < 0 \<or> ty < 0 \<or> 255 < ty then None
               else
                 (case map_of ms (str ''expiry'') of
                    None \<Rightarrow>
                      Some \<lparr>m_offset = nat off, m_size = nat sz, m_type = byte (nat ty),
                            m_expiry = None\<rparr>
                  | Some x \<Rightarrow>
                      (case x of
                         JNumber w \<Rightarrow>
                           (case int_of_double w of
                              Some e \<Rightarrow>
                                Some \<lparr>m_offset = nat off, m_size = nat sz, m_type = byte (nat ty),
                                      m_expiry = Some e\<rparr>
                            | None \<Rightarrow> None)
                       | _ \<Rightarrow> None))
           | _ \<Rightarrow> None)
      | _ \<Rightarrow> None)"

text \<open>\<open>JSON.stringify(undefined)\<close> is \<open>undefined\<close>, and \<open>Buffer.from\<close> of it throws.\<close>

definition stringify_meta :: "meta option \<Rightarrow> js_error + jsstring" where
  "stringify_meta mo = (case mo of None \<Rightarrow> Inl TypeError | Some m \<Rightarrow> Inr (meta_json m))"

subsection \<open>\<open>flushToWAL\<close>\<close>

text \<open>\<open>writeUInt8\<close> of \<open>undefined\<close> stores 0.\<close>

definition writeUInt8 :: "byte option \<Rightarrow> buffer" where
  "writeUInt8 op = [case op of None \<Rightarrow> 0 | Some b \<Rightarrow> b]"

text \<open>
  The body of the loop over \<open>changesToFlush\<close>: the buffers pushed for one change.
  \<open>JSON.stringify\<close> of a missing \<open>meta\<close> makes \<open>Buffer.from\<close> throw.
\<close>

definition wal_entry :: "key \<times> change \<Rightarrow> js_error + buffer list" where
  "wal_entry kc =
     (let keyBuffer = utf8_encode (fst kc) in
      if 0xFFFFFFFF < length keyBuffer then Inr []
      else
        (let entryHeader = writeUInt8 (c_op (snd kc)) @ writeUInt32LE (length keyBuffer) in
         if c_op (snd kc) = Some WAL_OP_SET then
           (case stringify_meta (c_meta (snd kc)) of
              Inl e \<Rightarrow> Inl e
            | Inr metaString \<Rightarrow>
                (let metaBuffer = utf8_encode metaString in
                 if 0xFFFFFFFF < length metaBuffer then Inr [entryHeader, keyBuffer]
                 else Inr [entryHeader, keyBuffer, writeUInt32LE (length metaBuffer), metaBuffer]))
         else Inr [entryHeader, keyBuffer]))"

fun wal_entries :: "(key \<times> change) list \<Rightarrow> js_error + buffer list" where
  "wal_entries [] = Inr []"
| "wal_entries (kc # kcs) =
     (case wal_entry kc of
        Inl e \<Rightarrow> Inl e
      | Inr bs \<Rightarrow> (case wal_entries kcs of Inl e \<Rightarrow> Inl e | Inr cs \<Rightarrow> Inr (bs @ cs)))"

definition requeue :: "(key \<times> change) list \<Rightarrow> (key \<times> change) list \<Rightarrow> (key \<times> change) list" where
  "requeue changesToFlush pending = foldl (\<lambda>p kc. AList.update (fst kc) (snd kc) p) pending changesToFlush"

definition checkIfCheckpointNeededBySize_gen ::
    "(kv \<Rightarrow> (js_error + bool) \<times> kv) \<Rightarrow> kv \<Rightarrow> (js_error + unit) \<times> kv" where
  "checkIfCheckpointNeededBySize_gen ck s =
     (if isCheckpointing s then (Inr (), s)
      else if walSizeThreshold (opts s) \<le> walSizeBytes (stats s) then
        (case ck (emit Log s) of
           (Inl e, s1) \<Rightarrow> (Inl e, s1)
         | (Inr b, s1) \<Rightarrow> (Inr (), s1))
      else (Inr (), s))"

text \<open>
  The handler of \<open>flushToWAL\<close>: the \<open>'error'\<close> event comes first, and only when it
  returns are the changes put back and the size of the WAL read again.
\<close>

definition flushToWAL_catch :: "(key \<times> change) list \<Rightarrow> kv \<Rightarrow> (js_error + bool) \<times> kv" where
  "flushToWAL_catch changesToFlush s =
     (case emit_error s of
        (Inl e, s1) \<Rightarrow> (Inl e, s1)
      | (Inr u, s1) \<Rightarrow>
          (Inr False,
           updateWalSizeStat (s1\<lparr>pendingChanges := requeue changesToFlush (pendingChanges s1)\<rparr>)))"

text \<open>
  \<open>flushToWAL\<close> and \<open>performCheckpoint\<close> call each other. \<open>flushToWAL_gen ck\<close> is
  \<open>flushToWAL\<close> with \<open>ck\<close> for the \<open>performCheckpoint(true)\<close> that
  \<open>checkIfCheckpointNeededBySize\<close> starts, inside the \<open>try\<close>. \<open>Inl\<close> is an
  exception that leaves the function.
\<close>

definition flushToWAL_gen ::
    "(kv \<Rightarrow> (js_error + bool) \<times> kv) \<Rightarrow> bool \<Rightarrow> kv \<Rightarrow> (js_error + bool) \<times> kv" where
  "flushToWAL_gen ck forceSyncWAL s =
     (if pendingChanges s = [] then (Inr False, s)
      else
        (let changesToFlush = pendingChanges s;
             s1 = s\<lparr>pendingChanges := []\<rparr>
         in case wal_entries changesToFlush of
              Inl e \<Rightarrow> (Inl e, s1)
            | Inr walEntriesBufferArray \<Rightarrow>
                if walEntriesBufferArray \<noteq> [] then
                  (let fullWalPayload = concat walEntriesBufferArray in
                   if \<not> walFd s1 \<or> fails WalWrite s1 then flushToWAL_catch changesToFlush s1
                   else
                     (let s2 = s1\<lparr>walFile := append_write (walFile s1) (walSizeBytes (stats s1)) fullWalPayload,
                                 stats := (stats s1)\<lparr>
                                   bytesWrittenToWAL := bytesWrittenToWAL (stats s1) + length fullWalPayload,
                                   walSizeBytes := walSizeBytes (stats s1) + length fullWalPayload\<rparr>\<rparr>
                      in if forceSyncWAL \<and> fails WalFsync s2 then flushToWAL_catch changesToFlush s2
                         else
                           (case checkIfCheckpointNeededBySize_gen ck
                                   (emit (IndexWalFlush (length changesToFlush)) s2) of
                              (Inl e, s3) \<Rightarrow> flushToWAL_catch changesToFlush s3
                            | (Inr u, s3) \<Rightarrow> (Inr True, s3))))
                else (Inr False, s1)))"


subsection \<open>\<open>performCheckpoint\<close>\<close>

text \<open>
  The Index is copied into a plain object by \<open>indexObjectForJSON[key] = meta\<close>. For the
  key \<open>__proto__\<close> that assignment sets the prototype and creates no property.
\<close>

definition index_object :: "(key \<times> meta) list \<Rightarrow> (key \<times> meta) list" where
  "index_object idx =
     foldl (\<lambda>ob p. if fst p = str ''__proto__'' then ob else obj_set (fst p) (snd p) ob) [] idx"

text \<open>
  The text of the document \<open>{ index, stats, updatedAt }\<close> written to the base index
  file.
\<close>

definition indexContent :: "kv \<Rightarrow> jsstring" where
  "indexContent s =
     lbrace # join_commas
       [json_field ''index''
          (lbrace # join_commas (map (\<lambda>p. QuoteJSONString (fst p) @ colon # meta_json (snd p))
                                    (index_object (index s)))
             @ [rbrace]),
        json_field ''stats''
          (lbrace # join_commas
             [json_field ''lastCheckpointTime'' (dec_int (lastCheckpointTime (stats s))),
              json_field ''checkpoints'' (dec_int (int (checkpoints (stats s))))]
             @ [rbrace]),
        json_field ''updatedAt'' (dec_int (now s))]
     @ [rbrace]"

text \<open>
  The inner \<open>try\<close> after the rename: truncate the WAL, sync it when asked, reset the
  counters. A failure is reported by an \<open>'error'\<close> event, after which the checkpoint
  goes on.
\<close>

definition checkpoint_truncate :: "bool \<Rightarrow> kv \<Rightarrow> (js_error + unit) \<times> kv" where
  "checkpoint_truncate forceSyncIndexFile s =
     (if \<not> walFd s \<or> fails WalTruncate s then emit_error s
      else
        (let s1 = s\<lparr>walFile := []\<rparr> in
         if (forceSyncIndexFile \<or> syncOnWrite (opts s1)) \<and> fails WalFsync s1 then emit_error s1
         else (Inr (), s1\<lparr>stats := (stats s1)\<lparr>walSizeBytes := 0, bytesWrittenToWAL := 0\<rparr>\<rparr>)))"

text \<open>
  The body of the outer \<open>try\<close>; \<open>Inl\<close> is the exception that sends control to
  \<open>catch\<close>. A write of the temporary file that fails after the file was opened leaves
  it empty. The \<open>flushToWAL\<close> in it runs while \<open>isCheckpointing\<close> is set, so it starts
  no checkpoint of its own.
\<close>

definition checkpoint_try :: "bool \<Rightarrow> bool \<Rightarrow> kv \<Rightarrow> (js_error + unit) \<times> kv" where
  "checkpoint_try forceSyncIndexFile kvIsClosing s =
     (case (if \<not> kvIsClosing
            then flushToWAL_gen (\<lambda>s. (Inr False, s)) (syncOnWrite (opts s) \<or> forceSyncIndexFile) s
            else (Inr False, s)) of
        (Inl e, s1) \<Rightarrow> (Inl e, s1)
      | (Inr flushed, s1) \<Rightarrow>
          (let content = indexContent s1 in
           if fails TmpOpen s1 then (Inl IOError, s1)
           else if fails TmpWrite s1 then (Inl IOError, s1\<lparr>tmpIndexFile := Some []\<rparr>)
           else
             (let s2 = s1\<lparr>tmpIndexFile := Some content\<rparr> in
              if forceSyncIndexFile \<and> fails TmpFsync s2 then (Inl IOError, s2)
              else if fails TmpRename s2 then (Inl IOError, s2)
              else
                (let s3 = s2\<lparr>indexFile := Some content, tmpIndexFile := None,
                            stats := (stats s2)\<lparr>indexSizeBytes := length (utf8_encode content)\<rparr>\<rparr>
                 in case checkpoint_truncate forceSyncIndexFile s3 of
                      (Inl e, s4) \<Rightarrow> (Inl e, s4)
                    | (Inr u, s4) \<Rightarrow>
                        (let s5 = s4\<lparr>stats := (stats s4)\<lparr>checkpoints := checkpoints (stats s4) + 1,
                                                           lastCheckpointTime := now s4\<rparr>\<rparr>
                         in (Inr (),
                             if \<not> kvIsClosing then emit (CheckpointEnd (length (index s5))) s5
                             else s5))))))"

text \<open>
  The handler of the outer \<open>try\<close>: the \<open>'error'\<close> event comes first, and only when it
  returns is the temporary file removed.
\<close>

definition checkpoint_catch :: "kv \<Rightarrow> (js_error + unit) \<times> kv" where
  "checkpoint_catch s =
     (case emit_error s of
        (Inl e, s1) \<Rightarrow> (Inl e, s1)
      | (Inr u, s1) \<Rightarrow>
          (Inr (),
           if tmpIndexFile s1 \<noteq> None \<and> \<not> fails TmpUnlink s1 then s1\<lparr>tmpIndexFile := None\<rparr>
           else s1))"

text \<open>\<open>performCheckpoint\<close>; the \<open>finally\<close> releases the guard on every way out.\<close>

definition performCheckpoint :: "bool \<Rightarrow> bool \<Rightarrow> kv \<Rightarrow> (js_error + bool) \<times> kv" where
  "performCheckpoint forceSyncIndexFile kvIsClosing s =
     (if isCheckpointing s \<and> \<not> kvIsClosing then (Inr False, emit Warn s)
      else
        (let s1 = s\<lparr>isCheckpointing := True\<rparr>;
             s2 = (if \<not> kvIsClosing then emit CheckpointStart s1 else s1)
         in case checkpoint_try forceSyncIndexFile kvIsClosing s2 of
              (Inr u, s3) \<Rightarrow> (Inr True, s3\<lparr>isCheckpointing := False\<rparr>)
            | (Inl e, s3) \<Rightarrow>
                (case checkpoint_catch s3 of
                   (Inl e', s4) \<Rightarrow> (Inl e', s4\<lparr>isCheckpointing := False\<rparr>)
                 | (Inr u, s4) \<Rightarrow> (Inr False, s4\<lparr>isCheckpointing := False\<rparr>))))"

definition flushToWAL :: "bool \<Rightarrow> kv \<Rightarrow> (js_error + bool) \<times> kv" where
  "flushToWAL forceSyncWAL s = flushToWAL_gen (performCheckpoint True False) forceSyncWAL s"

definition checkIfCheckpointNeededBySize :: "kv \<Rightarrow> (js_error + unit) \<times> kv" where
  "checkIfCheckpointNeededBySize s =
     checkIfCheckpointNeededBySize_gen (performCheckpoint True False) s"



section \<open>KV: the engine\<close>

definition index_get :: "kv \<Rightarrow> key \<Rightarrow> meta option" where
  "index_get s k = map_of (index s) k"

definition index_has :: "kv \<Rightarrow> key \<Rightarrow> bool" where
  "index_has s k = map_has (index s) k"

definition index_set :: "key \<Rightarrow> meta \<Rightarrow> kv \<Rightarrow> kv" where
  "index_set k m s = s\<lparr>index := AList.update k m (index s)\<rparr>"

definition index_delete :: "key \<Rightarrow> kv \<Rightarrow> kv" where
  "index_delete k s = s\<lparr>index := AList.delete k (index s)\<rparr>"

text \<open>
  \<open>_updateLRU\<close>: the key moves to the most-recent end; above the cap the least-recent
  key leaves the list and the cache.
\<close>

definition updateLRU :: "key \<Rightarrow> bool \<Rightarrow> kv \<Rightarrow> kv" where
  "updateLRU k isNewEntryToCache s =
     (case maxMemoryKeys (opts s) of
        None \<Rightarrow> s
      | Some n \<Rightarrow>
          (let pushed = remove1 k (lruKeys s) @ [k] in
           if n < length pushed then
             s\<lparr>lruKeys := tl pushed, store := AList.delete (hd pushed) (store s)\<rparr>
           else s\<lparr>lruKeys := pushed\<rparr>))"

text \<open>
  \<open>setImmediate\<close> is the flag it is guarded by: the deferred task is pending exactly
  while the flag is set, and runs as \<open>dataFlushTask\<close> or \<open>indexFlushTask\<close>.
\<close>

definition scheduleDataFlush :: "kv \<Rightarrow> kv" where
  "scheduleDataFlush s =
     (if isClosing s \<or> flushDataPending s \<or> dirtyDataKeys s = [] then s
      else s\<lparr>flushDataPending := True\<rparr>)"

definition scheduleIndexFlush :: "kv \<Rightarrow> kv" where
  "scheduleIndexFlush s =
     (if isClosing s \<or> flushIndexPending s \<or> pendingChanges s = [] then s
      else s\<lparr>flushIndexPending := True\<rparr>)"

definition clearTimeout :: "nat \<Rightarrow> kv \<Rightarrow> kv" where
  "clearTimeout h s = s\<lparr>timers := AList.delete h (timers s)\<rparr>"

text \<open>
  \<open>_setTTL\<close>. \<open>IndexManager.WAL_OP_SET\<close> is not a property of the class, so
  \<open>IndexManager.WAL_OP_SET || 1\<close> is 1.
\<close>

definition drop_expiry_update :: "key \<Rightarrow> byte option \<Rightarrow> kv \<Rightarrow> kv" where
  "drop_expiry_update k op s =
     (case index_get s k of
        None \<Rightarrow> s
      | Some m0 \<Rightarrow>
          (let m = m0\<lparr>m_expiry := None\<rparr> in
           scheduleIndexFlush (addChange k op (Some m) (index_set k m s))))"

definition setTTL :: "key \<Rightarrow> int \<Rightarrow> bool \<Rightarrow> kv \<Rightarrow> kv" where
  "setTTL k ttlMs scheduleIndexUpdate s =
     (let s1 = (case map_of (ttlMap s) k of
                  Some t \<Rightarrow> clearTimeout (t_timeout t) s
                | None \<Rightarrow> s)
      in if ttlMs \<le> 0 then
           (if map_has (ttlMap s1) k then
              (let s2 = s1\<lparr>ttlMap := AList.delete k (ttlMap s1)\<rparr> in
               if scheduleIndexUpdate \<and> index_has s2 k then drop_expiry_update k (Some 1) s2
               else s2)
            else s1)
         else
           (let expiry = now s1 + ttlMs;
                timeoutId = nextTimer s1;
                s2 = s1\<lparr>timers := AList.update timeoutId \<lparr>tm_key = k, tm_expiry = expiry\<rparr> (timers s1),
                        nextTimer := Suc timeoutId,
                        ttlMap := AList.update k \<lparr>t_expiry = expiry, t_timeout = timeoutId\<rparr> (ttlMap s1)\<rparr>
            in if scheduleIndexUpdate \<and> index_has s2 k then
                 (case index_get s2 k of
                    None \<Rightarrow> s2
                  | Some m0 \<Rightarrow>
                      (let m = m0\<lparr>m_expiry := Some expiry\<rparr> in
                       scheduleIndexFlush (addChange k (Some 1) (Some m) (index_set k m s2))))
               else s2))"

definition flushIndexManagerToWAL :: "bool \<Rightarrow> kv \<Rightarrow> (js_error + bool) \<times> kv" where
  "flushIndexManagerToWAL forceSyncWAL s =
     (if isClosing s then (Inr False, s) else flushToWAL forceSyncWAL s)"

text \<open>
  \<open>kv-core.js\<close> binds \<open>fs\<close> to the string \<open>'fs'\<close> (its line 2), not to the module:
  \<open>fs.fstatSync\<close>, \<open>fs.fsyncSync\<close>, \<open>fs.renameSync\<close> and \<open>fs.existsSync\<close> are
  \<open>undefined\<close> there, and calling one throws a \<open>TypeError\<close>.
\<close>

definition core_fs_call :: "js_error + nat" where
  "core_fs_call = Inl TypeError"

text \<open>
  The loop of \<open>_flushDataToStorage\<close> over the keys to process, with the running offset.
  A write that throws puts the key back into the dirty set.
\<close>

fun flush_keys :: "key list \<Rightarrow> nat \<Rightarrow> kv \<Rightarrow> nat \<times> kv" where
  "flush_keys [] dataFileCurrentOffset s = (dataFileCurrentOffset, s)"
| "flush_keys (k # ks) dataFileCurrentOffset s =
     (case map_of (store s) k of
        None \<Rightarrow> flush_keys ks dataFileCurrentOffset s
      | Some v \<Rightarrow>
          (let s1 = (case index_get s k of
                       Some oldMeta \<Rightarrow>
                         s\<lparr>stats := (stats s)\<lparr>wastedSpace := wastedSpace (stats s) + m_size oldMeta\<rparr>\<rparr>
                     | None \<Rightarrow> s)
           in case writeData k v dataFileCurrentOffset s1 of
                (Inl e, s2) \<Rightarrow>
                  flush_keys ks dataFileCurrentOffset (s2\<lparr>dirtyDataKeys := set_add k (dirtyDataKeys s2)\<rparr>)
              | (Inr newMeta0, s2) \<Rightarrow>
                  (let newMeta = (case map_of (ttlMap s2) k of
                                    Some t \<Rightarrow> newMeta0\<lparr>m_expiry := Some (t_expiry t)\<rparr>
                                  | None \<Rightarrow> newMeta0)
                   in flush_keys ks (dataFileCurrentOffset + m_size newMeta0)
                        (addChange k (Some 1) (Some newMeta) (index_set k newMeta s2)))))"

text \<open>
  \<open>_flushDataToStorage\<close>. Its first \<open>fs\<close> call is the \<open>fstatSync\<close> inside
  \<open>try\<close>: when it throws the function returns \<open>false\<close>. \<open>flushDataFrom\<close> is what
  follows, from the offset the \<open>fstatSync\<close> gives; the \<open>fsync\<close> after the loop is a
  second \<open>fs\<close> call, outside any \<open>try\<close>.
\<close>

definition flushDataFrom :: "nat \<Rightarrow> bool \<Rightarrow> kv \<Rightarrow> (js_error + bool) \<times> kv" where
  "flushDataFrom dataFileCurrentOffset forceSyncDataFile s =
     (let flushedCount = length (dirtyDataKeys s);
          keysToProcess = dirtyDataKeys s;
          s1 = snd (flush_keys keysToProcess dataFileCurrentOffset (s\<lparr>dirtyDataKeys := []\<rparr>))
      in if forceSyncDataFile \<and> dataFd s1 then
           (case core_fs_call of
              Inl e \<Rightarrow> (Inl e, s1)
            | Inr sz \<Rightarrow>
                (let s2 = emit (DataFlush flushedCount) s1 in
                 (Inr True, if pendingChanges s2 \<noteq> [] then scheduleIndexFlush s2 else s2)))
         else
           (let s2 = emit (DataFlush flushedCount) s1 in
            (Inr True, if pendingChanges s2 \<noteq> [] then scheduleIndexFlush s2 else s2)))"

definition flushDataToStorage :: "bool \<Rightarrow> kv \<Rightarrow> (js_error + bool) \<times> kv" where
  "flushDataToStorage forceSyncDataFile s =
     (if isClosing s \<or> dirtyDataKeys s = [] then (Inr False, s)
      else
        (case core_fs_call of
           Inl e \<Rightarrow> (Inr False, s)
         | Inr dataFileCurrentOffset \<Rightarrow> flushDataFrom dataFileCurrentOffset forceSyncDataFile s))"

text \<open>\<open>options.ttl || this.options.defaultTTL\<close>: 0 and a missing option are falsy.\<close>

definition ttl_or_default :: "int option \<Rightarrow> int option \<Rightarrow> int option" where
  "ttl_or_default ttlOption dflt =
     (case ttlOption of
        Some t \<Rightarrow> if t \<noteq> 0 then Some t else dflt
      | None \<Rightarrow> dflt)"

definition truthy :: "int option \<Rightarrow> bool" where
  "truthy x \<longleftrightarrow> (case x of Some t \<Rightarrow> t \<noteq> 0 | None \<Rightarrow> False)"

text \<open>
  \<open>set(key, value, { ttl })\<close>, in three parts: the cache and the dirty set, the TTL
  statement, and the flushes with the \<open>set\<close> event. In the branch that cancels a TTL the
  change is queued with \<open>IndexManager.WAL_OP_SET\<close>, which is \<open>undefined\<close>.
\<close>

definition set_cache :: "key \<Rightarrow> jsvalue \<Rightarrow> kv \<Rightarrow> kv" where
  "set_cache k v s =
     (let oldMetaInMemory = index_get s k;
          s1 = updateLRU k (oldMetaInMemory = None) (s\<lparr>store := AList.update k v (store s)\<rparr>)
      in s1\<lparr>dirtyDataKeys := set_add k (dirtyDataKeys s1),
             stats := (stats s1)\<lparr>writes := writes (stats s1) + 1, lastAccess := now s1\<rparr>\<rparr>)"

definition set_ttl :: "key \<Rightarrow> int option \<Rightarrow> kv \<Rightarrow> kv" where
  "set_ttl k ttlOption s =
     (let ttl = ttl_or_default ttlOption (defaultTTL (opts s)) in
      if truthy ttl then setTTL k (the ttl) True s
      else
        (case map_of (ttlMap s) k of
           Some t \<Rightarrow>
             (let s' = (clearTimeout (t_timeout t) s)\<lparr>ttlMap := AList.delete k (ttlMap s)\<rparr> in
              if index_has s' k then drop_expiry_update k None s' else s')
         | None \<Rightarrow> s))"

definition set_flush :: "key \<Rightarrow> jsvalue \<Rightarrow> kv \<Rightarrow> (js_error + bool) \<times> kv" where
  "set_flush k v s =
     (let s4 = scheduleDataFlush s in
      if syncOnWrite (opts s4) then
        (case flushDataToStorage True s4 of
           (Inl e, s5) \<Rightarrow> (Inl e, s5)
         | (Inr d, s5) \<Rightarrow>
             (case flushIndexManagerToWAL True s5 of
                (Inl e, s6) \<Rightarrow> (Inl e, s6)
              | (Inr i, s6) \<Rightarrow> (Inr True, emit (EvSet k v) s6)))
      else (Inr True, emit (EvSet k v) s4))"

definition kv_set :: "key \<Rightarrow> jsvalue \<Rightarrow> int option \<Rightarrow> kv \<Rightarrow> (js_error + bool) \<times> kv" where
  "kv_set k v ttlOption s =
     (if isClosing s then (Inr False, s)
      else if k = [] then (Inl TypeError, s)
      else set_flush k v (set_ttl k ttlOption (set_cache k v s)))"

text \<open>
  \<open>get(key)\<close> returns \<open>undefined\<close> for a miss. Its three ways out: the value is in
  the cache; the key is in the Index and the value is read from the Data Log; a miss.
\<close>

definition get_cached :: "key \<Rightarrow> jsvalue \<Rightarrow> kv \<Rightarrow> (js_error + jsvalue) \<times> kv" where
  "get_cached k v s =
     (Inr v, emit (EvGet k v) (updateLRU k False (s\<lparr>stats := (stats s)\<lparr>hits := hits (stats s) + 1\<rparr>\<rparr>)))"

definition get_miss :: "key \<Rightarrow> kv \<Rightarrow> (js_error + jsvalue) \<times> kv" where
  "get_miss k s =
     (Inr JUndefined, emit (Miss k) (s\<lparr>stats := (stats s)\<lparr>misses := misses (stats s) + 1\<rparr>\<rparr>))"

definition get_disk :: "key \<Rightarrow> meta \<Rightarrow> kv \<Rightarrow> (js_error + jsvalue) \<times> kv" where
  "get_disk k m s =
     (case readValue m s of
        (Inr v, s2) \<Rightarrow>
          (let s3 = s2\<lparr>stats := (stats s2)\<lparr>diskReads := diskReads (stats s2) + 1\<rparr>,
                      store := AList.update k v (store s2)\<rparr>;
               s4 = updateLRU k True s3;
               s5 = s4\<lparr>stats := (stats s4)\<lparr>hits := hits (stats s4) + 1\<rparr>\<rparr>
           in (Inr v, emit (EvGet k v) s5))
      | (Inl e, s2) \<Rightarrow> get_miss k s2)"

definition kv_get :: "key \<Rightarrow> kv \<Rightarrow> (js_error + jsvalue) \<times> kv" where
  "kv_get k s =
     (if isClosing s then (Inr JUndefined, s)
      else if k = [] then (Inl TypeError, s)
      else
        (let s1 = s\<lparr>stats := (stats s)\<lparr>reads := reads (stats s) + 1, lastAccess := now s\<rparr>\<rparr> in
         case map_of (store s1) k of
           Some v \<Rightarrow> get_cached k v s1
         | None \<Rightarrow>
             (case index_get s1 k of
                Some m \<Rightarrow> get_disk k m s1
              | None \<Rightarrow> get_miss k s1)))"

definition kv_has :: "key \<Rightarrow> kv \<Rightarrow> js_error + bool" where
  "kv_has k s =
     (if isClosing s then Inr False
      else if k = [] then Inl TypeError
      else Inr (index_has s k))"

text \<open>
  \<open>delete(key)\<close>: the removal from the cache and from the Index, then, when something was
  removed, the counters, the index flush and the event. The source leaves the LRU list and
  the TTL table as they are (both places are comments).
\<close>

definition delete_entries :: "key \<Rightarrow> kv \<Rightarrow> kv" where
  "delete_entries k s =
     (let s1 = (if map_has (store s) k then s\<lparr>store := AList.delete k (store s)\<rparr> else s) in
      case index_get s1 k of
        Some oldMeta \<Rightarrow>
          addChange k (Some 2) None
            (index_delete k
               (s1\<lparr>stats := (stats s1)\<lparr>wastedSpace := wastedSpace (stats s1) + m_size oldMeta\<rparr>\<rparr>))
      | None \<Rightarrow> s1)"

definition delete_flush :: "key \<Rightarrow> kv \<Rightarrow> (js_error + bool) \<times> kv" where
  "delete_flush k s =
     (let s3 = scheduleIndexFlush
                 (s\<lparr>stats := (stats s)\<lparr>deletes := deletes (stats s) + 1, lastAccess := now s\<rparr>\<rparr>)
      in if syncOnWrite (opts s3) then
           (case flushIndexManagerToWAL True s3 of
              (Inl e, s4) \<Rightarrow> (Inl e, s4)
            | (Inr i, s4) \<Rightarrow> (Inr True, emit (EvDelete k) s4))
         else (Inr True, emit (EvDelete k) s3))"

definition kv_delete :: "key \<Rightarrow> kv \<Rightarrow> (js_error + bool) \<times> kv" where
  "kv_delete k s =
     (if isClosing s then (Inr False, s)
      else if k = [] then (Inl TypeError, s)
      else if map_has (store s) k \<or> index_has s k then delete_flush k (delete_entries k s)
      else (Inr False, delete_entries k s))"

subsection \<open>Deferred and periodic tasks, timers\<close>






subsection \<open>\<open>clear\<close>, \<open>flush\<close>, \<open>compact\<close>, \<open>getStats\<close>, \<open>close\<close>\<close>










text \<open>
  \<open>close\<close>. What the final flush and checkpoint throw is reported by an \<open>'error'\<close>
  event; when that event is thrown in turn, the rest of \<open>close\<close> does not run. The last
  statement removes all listeners.
\<close>

definition close_submodules :: "kv \<Rightarrow> kv" where
  "close_submodules s =
     (let s4 = (emit Log s)\<lparr>dataFd := False, walFd := False\<rparr>
      in (emit Close (emit Log s4))\<lparr>errorListener := False\<rparr>)"


subsection \<open>WAL replay at open\<close>

text \<open>
  The \<open>try\<close> around the metadata of a SET entry. A text that does not parse is reported
  by an \<open>'error'\<close> event and the entry is skipped. The source installs whatever the text
  parses to before it looks at it; the Index of this development holds metadata records
  only, so a text that parses to anything else is beyond what it describes: the result is
  \<open>None\<close> there, and nothing is stated about such a WAL.
\<close>

definition replay_set :: "key \<Rightarrow> jsstring \<Rightarrow> kv \<Rightarrow> ((js_error + unit) \<times> kv) option" where
  "replay_set k metaString s =
     (case JSON_parse metaString of
        Inl e \<Rightarrow> Some (emit_error s)
      | Inr v \<Rightarrow>
          (case meta_of_js v of
             None \<Rightarrow> None
           | Some m \<Rightarrow>
               (let s1 = index_set k m s in
                if truthy (m_expiry m) \<and> now s1 < the (m_expiry m) then
                  Some (Inr (), setTTL k (the (m_expiry m) - now s1) False s1)
                else if truthy (m_expiry m) \<and> the (m_expiry m) \<le> now s1 then
                  Some (Inr (), index_delete k s1)
                else Some (Inr (), s1))))"

definition replay_delete :: "key \<Rightarrow> kv \<Rightarrow> kv" where
  "replay_delete k s =
     (let s1 = index_delete k s in
      case map_of (ttlMap s1) k of
        Some t \<Rightarrow> (clearTimeout (t_timeout t) s1)\<lparr>ttlMap := AList.delete k (ttlMap s1)\<rparr>
      | None \<Rightarrow> s1)"

datatype replay_outcome = Continue nat | Break | Throw js_error | Beyond

text \<open>
  One round of the \<open>while\<close> loop of \<open>_replayWAL\<close>, entered with \<open>offset < size\<close>:
  \<open>Break\<close> leaves the loop, \<open>Continue\<close> carries the offset of the next entry,
  \<open>Throw\<close> is an exception, \<open>Beyond\<close> the SET entry this development does not
  describe.
\<close>

definition replay_step :: "buffer \<Rightarrow> nat \<Rightarrow> kv \<Rightarrow> replay_outcome \<times> kv" where
  "replay_step walBuffer offset s =
     (if length walBuffer < offset + WAL_ENTRY_HEADER_SIZE then (Break, emit Warn s)
      else
        (case readUInt32LE walBuffer (offset + 1) of
           Inl e \<Rightarrow> (Throw e, s)
         | Inr keyLength \<Rightarrow>
             if length walBuffer < offset + WAL_ENTRY_HEADER_SIZE + keyLength then (Break, emit Warn s)
             else
               (let opType = walBuffer ! offset;
                    k = utf8_decode (take keyLength (drop (offset + WAL_ENTRY_HEADER_SIZE) walBuffer));
                    offset2 = offset + WAL_ENTRY_HEADER_SIZE + keyLength
                in if opType = WAL_OP_SET then
                     (if length walBuffer < offset2 + 4 then (Break, emit Warn s)
                      else
                        (case readUInt32LE walBuffer offset2 of
                           Inl e \<Rightarrow> (Throw e, s)
                         | Inr metaLength \<Rightarrow>
                             if length walBuffer < offset2 + 4 + metaLength then (Break, emit Warn s)
                             else
                               (case replay_set k (utf8_decode (take metaLength (drop (offset2 + 4) walBuffer))) s of
                                  None \<Rightarrow> (Beyond, s)
                                | Some (Inl e, s1) \<Rightarrow> (Throw e, s1)
                                | Some (Inr u, s1) \<Rightarrow> (Continue (offset2 + 4 + metaLength), s1))))
                   else if opType = WAL_OP_DELETE then (Continue offset2, replay_delete k s)
                   else (Break, emit Warn s))))"

lemma replay_step_advances:
  "replay_step walBuffer offset s = (Continue offset', s') \<Longrightarrow> offset < offset'"
  by (auto simp: replay_step_def Let_def WAL_ENTRY_HEADER_SIZE_def
      split: if_splits sum.splits option.splits prod.splits)

text \<open>The loop: the number of entries replayed, an exception, or \<open>None\<close> for \<open>Beyond\<close>.\<close>

function replay_loop :: "buffer \<Rightarrow> nat \<Rightarrow> nat \<Rightarrow> kv \<Rightarrow> (js_error + nat) option \<times> kv" where
  "replay_loop walBuffer offset replayedOps s =
     (if offset < length walBuffer then
        (case replay_step walBuffer offset s of
           (Break, s1) \<Rightarrow> (Some (Inr replayedOps), s1)
         | (Throw e, s1) \<Rightarrow> (Some (Inl e), s1)
         | (Beyond, s1) \<Rightarrow> (None, s1)
         | (Continue offset', s1) \<Rightarrow> replay_loop walBuffer offset' (Suc replayedOps) s1)
      else (Some (Inr replayedOps), s))"
  by pat_completeness auto
termination
  by (relation "measure (\<lambda>(walBuffer, offset, replayedOps, s). length walBuffer - offset)")
     (auto dest!: replay_step_advances [OF sym] intro: diff_less_mono2)

declare replay_loop.simps [simp del]


subsection \<open>A new engine over empty files\<close>

definition initial_stats :: "int \<Rightarrow> stats" where
  "initial_stats t =
     \<lparr>reads = 0, writes = 0, deletes = 0, hits = 0, misses = 0, diskReads = 0, lastAccess = t,
      bytesWrittenToDataFile = 0, bytesReadFromDataFile = 0, bytesWrittenToWAL = 0,
      compactions = 0, lastCompactionTime = 0, wastedSpace = 0, indexSizeBytes = 0,
      walSizeBytes = 0, checkpoints = 0, lastCheckpointTime = 0\<rparr>"

definition new_kv :: "options \<Rightarrow> int \<Rightarrow> kv" where
  "new_kv os t =
     \<lparr>opts = os, stats = initial_stats t, store = [], lruKeys = [], dirtyDataKeys = [], ttlMap = [],
      timers = [], nextTimer = 0, index = [], pendingChanges = [], isCheckpointing = False,
      isClosing = False, isCompacting = False, flushDataPending = False, flushIndexPending = False,
      dataFile = [], dataFd = True, walFile = [], walFd = True, indexFile = None,
      tmpIndexFile = None, compactingFile = None, events = [Ready 0], faults = {}, now = t,
      errorListener = False\<rparr>"

definition defaultOptions :: options where
  "defaultOptions = \<lparr>maxMemoryKeys = None, defaultTTL = None, syncOnWrite = False,
                      walSizeThreshold = 5 * 1024 * 1024\<rparr>"


subsection \<open>What the TTL statements, the WAL flush and the checkpoint leave alone\<close>

definition cache_core where
  "cache_core s =
     (opts s, store s, lruKeys s, dirtyDataKeys s, isClosing s, isCompacting s, flushDataPending s,
      dataFile s, dataFd s, compactingFile s, faults s, now s)"

definition engine_core where
  "engine_core s =
     (cache_core s, ttlMap s, timers s, nextTimer s, index s, flushIndexPending s)"

subsection \<open>Sequences of caller operations\<close>

datatype kv_op = OpSet key jsvalue "int option" | OpGet key | OpDelete key

fun run_op :: "kv_op \<Rightarrow> kv \<Rightarrow> kv" where
  "run_op (OpSet k v ttlOption) s = snd (kv_set k v ttlOption s)"
| "run_op (OpGet k) s = snd (kv_get k s)"
| "run_op (OpDelete k) s = snd (kv_delete k s)"

definition run_ops :: "kv_op list \<Rightarrow> kv \<Rightarrow> kv" where
  "run_ops ops s = foldl (\<lambda>s' op. run_op op s') s ops"

text \<open>
  \<open>readable s k\<close>: \<open>get(k)\<close> in state \<open>s\<close> finds the value, in the cache or through
  the Index in the Data Log. \<open>all_hit ks s\<close>: every read of the sequence \<open>ks\<close> does.
\<close>

definition readable :: "kv \<Rightarrow> key \<Rightarrow> bool" where
  "readable s k \<longleftrightarrow>
     \<not> isClosing s \<and> k \<noteq> []
     \<and> (map_has (store s) k
          \<or> (case index_get s k of
                Some m \<Rightarrow> (case fst (readValue m s) of Inr v \<Rightarrow> True | Inl e \<Rightarrow> False)
              | None \<Rightarrow> False))"

fun read_all :: "key list \<Rightarrow> kv \<Rightarrow> kv" where
  "read_all [] s = s"
| "read_all (k # ks) s = read_all ks (snd (kv_get k s))"

fun all_hit :: "key list \<Rightarrow> kv \<Rightarrow> bool" where
  "all_hit [] s = True"
| "all_hit (k # ks) s = (readable s k \<and> all_hit ks (snd (kv_get k s)))"

text \<open>
  The shape of the cache under a cap of \<open>n\<close> keys: the recency list has no repetition
  and at most \<open>n\<close> keys, and every cached key is in it.
\<close>

definition lru_ok :: "nat \<Rightarrow> key list \<Rightarrow> (key \<times> jsvalue) list \<Rightarrow> bool" where
  "lru_ok n lru st \<longleftrightarrow>
     distinct lru \<and> length lru \<le> n \<and> fst ` set st \<subseteq> set lru \<and> distinct (map fst st)"

text \<open>The values \<open>serializeValue\<close> has no branch for.\<close>

fun unsupported :: "jsvalue \<Rightarrow> bool" where
  "unsupported JFunction = True"
| "unsupported JSymbol = True"
| "unsupported (JBigInt n) = True"
| "unsupported v = False"

subsection \<open>The states an engine reaches\<close>



subsection \<open>Example states\<close>

definition kv_pending_delete :: kv where
  "kv_pending_delete =
     (new_kv defaultOptions 0)\<lparr>pendingChanges := [([0x61], \<lparr>c_op = Some 2, c_meta = None\<rparr>)],
                               faults := {WalWrite}\<rparr>"

definition kv_rename_fails :: kv where
  "kv_rename_fails = (new_kv defaultOptions 0)\<lparr>faults := {TmpRename}\<rparr>"

definition meta_true :: meta where
  "meta_true = \<lparr>m_offset = 0, m_size = 6, m_type = 2, m_expiry = None\<rparr>"

definition kv_written_true :: kv where
  "kv_written_true =
     (new_kv defaultOptions 0)\<lparr>dataFile := [2, 1, 0, 0, 0, 1],
                               stats := (initial_stats 0)\<lparr>bytesWrittenToDataFile := 6\<rparr>\<rparr>"

definition kv_ttl_default :: kv where
  "kv_ttl_default =
     (new_kv (defaultOptions\<lparr>defaultTTL := Some 1000\<rparr>) 0)
       \<lparr>ttlMap := [([0x61], \<lparr>t_expiry = 500, t_timeout = 0\<rparr>)],
        timers := [(0, \<lparr>tm_key = [0x61], tm_expiry = 500\<rparr>)], nextTimer := 1,
        index := [([0x61], \<lparr>m_offset = 0, m_size = 5, m_type = 0, m_expiry = Some 500\<rparr>)],
        dataFile := [0, 0, 0, 0, 0]\<rparr>"

definition kv_ttl_plain :: kv where
  "kv_ttl_plain = kv_ttl_default\<lparr>opts := defaultOptions\<rparr>"

text \<open>The last \<open>n\<close> elements of a list.\<close>

definition lastn :: "nat \<Rightarrow> 'a list \<Rightarrow> 'a list" where
  "lastn n xs = drop (length xs - n) xs"

definition kv_two_keys :: kv where
  "kv_two_keys =
     (new_kv (defaultOptions\<lparr>maxMemoryKeys := Some 1\<rparr>) 0)
       \<lparr>index := [([0x61], \<lparr>m_offset = 0, m_size = 5, m_type = 0, m_expiry = None\<rparr>),
                  ([0x62], \<lparr>m_offset = 0, m_size = 5, m_type = 0, m_expiry = None\<rparr>)],
        dataFile := [0, 0, 0, 0, 0]\<rparr>"

text \<open>A cache without cap, or with a positive cap and a recency list without repetition.\<close>

definition cache_keeps :: "kv \<Rightarrow> bool" where
  "cache_keeps s = (case maxMemoryKeys (opts s) of None \<Rightarrow> True | Some n \<Rightarrow> 0 < n \<and> distinct (lruKeys s))"

text \<open>The live records fit in the Data Log.\<close>

definition data_inv :: "kv \<Rightarrow> bool" where
  "data_inv s \<longleftrightarrow> liveDataSize (index s) \<le> length (dataFile s)"

text \<open>Two states with the same Index and the same Data Log.\<close>

definition same_log :: "kv \<Rightarrow> kv \<Rightarrow> bool" where
  "same_log s s' \<longleftrightarrow> index s' = index s \<and> dataFile s' = dataFile s"

text \<open>Two states with the same record sizes in the Index and the same Data Log.\<close>

definition same_sizes :: "kv \<Rightarrow> kv \<Rightarrow> bool" where
  "same_sizes s s' \<longleftrightarrow> liveDataSize (index s') = liveDataSize (index s) \<and> dataFile s' = dataFile s"

text \<open>
  The Data Log after \<open>writeData('a', true, 0)\<close> on a new engine, and the metadata that
  \<open>writeData('b', 'x', 0)\<close> returns on it.
\<close>

definition meta_x_at_0 :: meta where
  "meta_x_at_0 = \<lparr>m_offset = 0, m_size = 6, m_type = 4, m_expiry = None\<rparr>"

text \<open>
  The entry at \<open>offset\<close> is cut short or has an unknown op type: the four tests of the
  replay loop that end in \<open>break\<close>, and its last \<open>else\<close>.
\<close>

definition truncated_at :: "buffer \<Rightarrow> nat \<Rightarrow> bool" where
  "truncated_at walBuffer offset \<longleftrightarrow>
     length walBuffer < offset + WAL_ENTRY_HEADER_SIZE \<or>
     (case readUInt32LE walBuffer (offset + 1) of
        Inl e \<Rightarrow> False
      | Inr keyLength \<Rightarrow>
          (let offset2 = offset + WAL_ENTRY_HEADER_SIZE + keyLength in
           length walBuffer < offset2 \<or>
           (if walBuffer ! offset = WAL_OP_SET then
              length walBuffer < offset2 + 4 \<or>
              (case readUInt32LE walBuffer offset2 of
                 Inl e \<Rightarrow> False
               | Inr metaLength \<Rightarrow> length walBuffer < offset2 + 4 + metaLength)
            else walBuffer ! offset \<noteq> WAL_OP_DELETE)))"



text \<open>
  An engine whose Index holds \<open>a\<close>, with a TTL that is still running, and \<open>b\<close>; no
  default TTL. \<open>wal_undefined_op\<close> is the WAL it writes for \<open>set('a', null)\<close> followed by
  \<open>delete('b')\<close>.
\<close>

definition kv_ttl_two :: kv where
  "kv_ttl_two =
     (new_kv defaultOptions 0)
       \<lparr>ttlMap := [([0x61], \<lparr>t_expiry = 500, t_timeout = 0\<rparr>)],
        timers := [(0, \<lparr>tm_key = [0x61], tm_expiry = 500\<rparr>)], nextTimer := 1,
        index := [([0x61], \<lparr>m_offset = 0, m_size = 5, m_type = 0, m_expiry = Some 500\<rparr>),
                  ([0x62], \<lparr>m_offset = 5, m_size = 5, m_type = 0, m_expiry = None\<rparr>)],
        dataFile := [0, 0, 0, 0, 0, 0, 0, 0, 0, 0]\<rparr>"

definition wal_undefined_op :: buffer where
  "wal_undefined_op = [0, 1, 0, 0, 0, 0x61, 2, 1, 0, 0, 0, 0x62]"

(*THEOREMS*)


section \<open>What the WAL flush and the checkpoint do not change\<close>

lemma cache_core_upd [simp]:
  "cache_core (s\<lparr>pendingChanges := p\<rparr>) = cache_core s"
  "cache_core (s\<lparr>walFile := w\<rparr>) = cache_core s"
  "cache_core (s\<lparr>walFd := fdo\<rparr>) = cache_core s"
  "cache_core (s\<lparr>stats := st\<rparr>) = cache_core s"
  "cache_core (s\<lparr>events := ev\<rparr>) = cache_core s"
  "cache_core (s\<lparr>isCheckpointing := b\<rparr>) = cache_core s"
  "cache_core (s\<lparr>indexFile := ix\<rparr>) = cache_core s"
  "cache_core (s\<lparr>tmpIndexFile := tmp\<rparr>) = cache_core s"
  "cache_core (s\<lparr>ttlMap := tt\<rparr>) = cache_core s"
  "cache_core (s\<lparr>timers := tms\<rparr>) = cache_core s"
  "cache_core (s\<lparr>nextTimer := nt\<rparr>) = cache_core s"
  "cache_core (s\<lparr>index := idx\<rparr>) = cache_core s"
  "cache_core (s\<lparr>flushIndexPending := fip\<rparr>) = cache_core s"
  by (simp_all add: cache_core_def)

lemma engine_core_upd [simp]:
  "engine_core (s\<lparr>pendingChanges := p\<rparr>) = engine_core s"
  "engine_core (s\<lparr>walFile := w\<rparr>) = engine_core s"
  "engine_core (s\<lparr>walFd := fdo\<rparr>) = engine_core s"
  "engine_core (s\<lparr>stats := st\<rparr>) = engine_core s"
  "engine_core (s\<lparr>events := ev\<rparr>) = engine_core s"
  "engine_core (s\<lparr>isCheckpointing := b\<rparr>) = engine_core s"
  "engine_core (s\<lparr>indexFile := ix\<rparr>) = engine_core s"
  "engine_core (s\<lparr>tmpIndexFile := tmp\<rparr>) = engine_core s"
  by (simp_all add: engine_core_def)

lemma cache_coreD:
  assumes "cache_core s' = cache_core s"
  shows "opts s' = opts s" "store s' = store s" "lruKeys s' = lruKeys s"
    "dirtyDataKeys s' = dirtyDataKeys s" "dataFile s' = dataFile s" "isClosing s' = isClosing s"
    "faults s' = faults s" "dataFd s' = dataFd s" "now s' = now s"
  using assms by (simp_all add: cache_core_def)

lemma engine_coreD:
  assumes "engine_core s' = engine_core s"
  shows "cache_core s' = cache_core s" "ttlMap s' = ttlMap s" "timers s' = timers s"
    "index s' = index s"
  using assms by (simp_all add: engine_core_def)

lemma cache_core_emit [simp]: "cache_core (emit e s) = cache_core s"
  by (simp add: emit_def)

lemma engine_core_emit [simp]: "engine_core (emit e s) = engine_core s"
  by (simp add: emit_def)

lemma emit_error_state [simp]: "snd (emit_error s) = emit Error s"
  by (simp add: emit_error_def)

lemma emit_error_cases:
  obtains "emit_error s = (Inr (), emit Error s)" "errorListener s"
  | "emit_error s = (Inl Unhandled, emit Error s)" "\<not> errorListener s"
  by (cases "errorListener s") (simp_all add: emit_error_def)

lemma engine_core_updateWalSizeStat [simp]: "engine_core (updateWalSizeStat s) = engine_core s"
  by (simp add: updateWalSizeStat_def)

lemma checkpoint_truncate_core [simp]: "engine_core (snd (checkpoint_truncate f s)) = engine_core s"
  by (simp add: checkpoint_truncate_def Let_def)

lemma checkpoint_catch_core [simp]: "engine_core (snd (checkpoint_catch s)) = engine_core s"
  by (cases s rule: emit_error_cases) (simp_all add: checkpoint_catch_def)

lemma flushToWAL_catch_core [simp]: "engine_core (snd (flushToWAL_catch cs s)) = engine_core s"
  by (cases s rule: emit_error_cases) (simp_all add: flushToWAL_catch_def)

lemma checkpoint_truncate_coreD:
  "checkpoint_truncate f s = (r, s') \<Longrightarrow> engine_core s' = engine_core s"
  using checkpoint_truncate_core[of f s] by simp

lemma checkpoint_catch_coreD: "checkpoint_catch s = (r, s') \<Longrightarrow> engine_core s' = engine_core s"
  using checkpoint_catch_core[of s] by simp

lemma flushToWAL_catch_coreD:
  "flushToWAL_catch cs s = (r, s') \<Longrightarrow> engine_core s' = engine_core s"
  using flushToWAL_catch_core[of cs s] by simp

lemma checkIfCheckpointNeededBySize_gen_coreD:
  assumes "\<And>s. engine_core (snd (ck s)) = engine_core s"
    and "checkIfCheckpointNeededBySize_gen ck s = (r, s')"
  shows "engine_core s' = engine_core s"
proof -
  have "engine_core (snd (ck (emit Log s))) = engine_core s" using assms(1)[of "emit Log s"] by simp
  then show ?thesis
    using assms(2)
    by (auto simp: checkIfCheckpointNeededBySize_gen_def split: if_splits prod.splits sum.splits)
qed

lemma flushToWAL_gen_coreD:
  assumes "\<And>s. engine_core (snd (ck s)) = engine_core s"
    and "flushToWAL_gen ck f s = (r, s')"
  shows "engine_core s' = engine_core s"
  using assms(2)
  by (auto simp: flushToWAL_gen_def Let_def split: if_splits sum.splits prod.splits
      dest!: flushToWAL_catch_coreD checkIfCheckpointNeededBySize_gen_coreD[OF assms(1)])

lemma flushToWAL_gen_core:
  assumes "\<And>s. engine_core (snd (ck s)) = engine_core s"
  shows "engine_core (snd (flushToWAL_gen ck f s)) = engine_core s"
  using flushToWAL_gen_coreD[OF assms, of f s] by (cases "flushToWAL_gen ck f s") simp

lemma checkpoint_try_coreD: "checkpoint_try f c s = (r, s') \<Longrightarrow> engine_core s' = engine_core s"
  by (auto simp: checkpoint_try_def Let_def split: if_splits sum.splits prod.splits
      dest!: checkpoint_truncate_coreD flushToWAL_gen_coreD[rotated])

lemma checkpoint_try_core: "engine_core (snd (checkpoint_try f c s)) = engine_core s"
  using checkpoint_try_coreD[of f c s] by (cases "checkpoint_try f c s") simp

lemma performCheckpoint_coreD:
  "performCheckpoint f c s = (r, s') \<Longrightarrow> engine_core s' = engine_core s"
  by (auto simp: performCheckpoint_def Let_def split: if_splits prod.splits sum.splits
      dest!: checkpoint_try_coreD checkpoint_catch_coreD)

lemma performCheckpoint_core: "engine_core (snd (performCheckpoint f c s)) = engine_core s"
  using performCheckpoint_coreD[of f c s] by (cases "performCheckpoint f c s") simp

lemma flushToWAL_core: "engine_core (snd (flushToWAL f s)) = engine_core s"
  unfolding flushToWAL_def by (rule flushToWAL_gen_core) (rule performCheckpoint_core)

lemma flushIndexManagerToWAL_core: "engine_core (snd (flushIndexManagerToWAL f s)) = engine_core s"
  by (simp add: flushIndexManagerToWAL_def flushToWAL_core)

lemma flushDataToStorage_stuck: "flushDataToStorage f s = (Inr False, s)"
  by (simp add: flushDataToStorage_def core_fs_call_def)

section \<open>Properties of the serializer\<close>

lemma type_and_data_type: "type_and_data v = Inr (t, d) \<Longrightarrow> getValueType v = Inr t"
  by (cases v) (auto split: sum.splits option.splits)

lemma serializeValue_shape:
  assumes "serializeValue v = Inr buf"
  obtains t d where "type_and_data v = Inr (t, d)" and "buf = t # writeUInt32LE (length d) @ d"
    and "length d \<le> 0xFFFFFFFF"
  using assms by (auto simp: serializeValue_def split: sum.splits if_splits)

lemma JSON_errors:
  "JSON_property v = Inl e \<Longrightarrow> e = TypeError"
  "JSON_elements xs = Inl e \<Longrightarrow> e = TypeError"
  "JSON_members ms = Inl e \<Longrightarrow> e = TypeError"
  by (induction v and xs and ms rule: JSON_property_JSON_elements_JSON_members.induct)
     (auto split: sum.splits)

lemma type_and_data_total:
  assumes "getValueType v = Inr t"
  shows "(\<exists>d. type_and_data v = Inr (t, d)) \<or> type_and_data v = Inl TypeError"
proof (cases v)
  case (JArray xs)
  then show ?thesis
    using assms JSON_errors(1)[of "JArray xs"]
    by (auto simp: JSON_stringify_def split: sum.splits option.splits)
next
  case (JObject ms)
  then show ?thesis
    using assms JSON_errors(1)[of "JObject ms"]
    by (auto simp: JSON_stringify_def split: sum.splits option.splits)
qed (use assms in auto)

lemma serializeValue_true: "serializeValue (JBoolean True) = Inr [2, 1, 0, 0, 0, 1]"
  by (simp add: serializeValue_def TYPE_BOOLEAN_def writeUInt32LE_def byte_def)

lemma serializeValue_x: "serializeValue (JString [0x78]) = Inr [4, 1, 0, 0, 0, 0x78]"
  by (simp add: serializeValue_def TYPE_STRING_def writeUInt32LE_def byte_def enc1_def)

lemma writeData_true:
  "writeData [0x61] (JBoolean True) 0 (new_kv defaultOptions 0) = (Inr meta_true, kv_written_true)"
  by (simp add: writeData_def serializeValue_true new_kv_def fails_def TYPE_BOOLEAN_def
      append_write_def initial_stats_def meta_true_def kv_written_true_def)

text \<open>
  C10, as amended. When \<open>serializeValue v\<close> succeeds, the first byte of the record is the
  tag \<open>getValueType v\<close> returns; and for every value \<open>getValueType\<close> has a tag for,
  \<open>serializeValue\<close> either succeeds or fails where \<open>JSON.stringify\<close> throws (a BigInt
  inside) or the payload is longer than 32 bits can say. The metadata \<open>writeData\<close> returns
  carries that tag, the offset it was given and the size of the record, and the record goes
  to the end of the Data Log. When the offset given is the end of the Data Log, the bytes
  the metadata points at are the record, and its \<open>type\<close> is the tag byte found there.
\<close>

theorem tag_is_value_type:
  "(serializeValue v = Inr buf \<longrightarrow> buf \<noteq> [] \<and> getValueType v = Inr (hd buf))
   \<and> (getValueType v = Inr t \<longrightarrow>
        (\<exists>rec. serializeValue v = Inr rec \<and> hd rec = t)
        \<or> serializeValue v = Inl TypeError \<or> serializeValue v = Inl OutOfRange)
   \<and> (writeData k v off s = (Inr m, s') \<longrightarrow>
        (\<exists>rec. serializeValue v = Inr rec \<and> m_type m = hd rec \<and> m_offset m = off
              \<and> m_size m = length rec \<and> dataFile s' = dataFile s @ rec
              \<and> (off = length (dataFile s) \<longrightarrow>
                    take (m_size m) (drop (m_offset m) (dataFile s')) = rec
                    \<and> dataFile s' ! m_offset m = m_type m)))"
proof (intro conjI)
  show "serializeValue v = Inr buf \<longrightarrow> buf \<noteq> [] \<and> getValueType v = Inr (hd buf)"
  proof
    assume "serializeValue v = Inr buf"
    then obtain t d where td: "type_and_data v = Inr (t, d)"
      and b: "buf = t # writeUInt32LE (length d) @ d"
      by (rule serializeValue_shape)
    show "buf \<noteq> [] \<and> getValueType v = Inr (hd buf)"
      using type_and_data_type [OF td] b by simp
  qed
  show "getValueType v = Inr t \<longrightarrow>
        (\<exists>rec. serializeValue v = Inr rec \<and> hd rec = t)
        \<or> serializeValue v = Inl TypeError \<or> serializeValue v = Inl OutOfRange"
  proof
    assume "getValueType v = Inr t"
    from type_and_data_total[OF this]
    show "(\<exists>rec. serializeValue v = Inr rec \<and> hd rec = t)
        \<or> serializeValue v = Inl TypeError \<or> serializeValue v = Inl OutOfRange"
    proof
      assume "\<exists>d. type_and_data v = Inr (t, d)"
      then obtain d where d: "type_and_data v = Inr (t, d)" by blast
      show ?thesis
        by (cases "0xFFFFFFFF < length d") (simp_all add: serializeValue_def d)
    next
      assume "type_and_data v = Inl TypeError"
      then show ?thesis by (simp add: serializeValue_def)
    qed
  qed
  show "writeData k v off s = (Inr m, s') \<longrightarrow>
        (\<exists>rec. serializeValue v = Inr rec \<and> m_type m = hd rec \<and> m_offset m = off
              \<and> m_size m = length rec \<and> dataFile s' = dataFile s @ rec
              \<and> (off = length (dataFile s) \<longrightarrow>
                    take (m_size m) (drop (m_offset m) (dataFile s')) = rec
                    \<and> dataFile s' ! m_offset m = m_type m))"
  proof
    assume w: "writeData k v off s = (Inr m, s')"
    then obtain rec where r: "serializeValue v = Inr rec"
      by (auto simp: writeData_def split: sum.splits)
    then obtain t d where td: "type_and_data v = Inr (t, d)"
      and b: "rec = t # writeUInt32LE (length d) @ d"
      by (rule serializeValue_shape)
    have ne: "rec \<noteq> []" and ty: "getValueType v = Inr (hd rec)"
      using type_and_data_type [OF td] b by simp_all
    from w r ty have m: "m = \<lparr>m_offset = off, m_size = length rec, m_type = hd rec, m_expiry = None\<rparr>"
      and s': "dataFile s' = dataFile s @ rec"
      by (auto simp: writeData_def Let_def append_write_def split: if_splits)
    have "off = length (dataFile s) \<longrightarrow> dataFile s' ! m_offset m = m_type m"
      using ne by (cases rec) (simp_all add: m s')
    then show "\<exists>rec. serializeValue v = Inr rec \<and> m_type m = hd rec \<and> m_offset m = off
              \<and> m_size m = length rec \<and> dataFile s' = dataFile s @ rec
              \<and> (off = length (dataFile s) \<longrightarrow>
                    take (m_size m) (drop (m_offset m) (dataFile s')) = rec
                    \<and> dataFile s' ! m_offset m = m_type m)"
      using r by (intro exI [of _ rec]) (simp add: m s')
  qed
qed

theorem tag_is_value_type_witness:
  "serializeValue (JBoolean True) = Inr [2, 1, 0, 0, 0, 1]
   \<and> getValueType (JBoolean True) = Inr 2
   \<and> writeData [0x61] (JBoolean True) 0 (new_kv defaultOptions 0) = (Inr meta_true, kv_written_true)
   \<and> 0 = length (dataFile (new_kv defaultOptions 0))
   \<and> dataFile kv_written_true ! m_offset meta_true = m_type meta_true
   \<and> take (m_size meta_true) (drop (m_offset meta_true) (dataFile kv_written_true))
       = [2, 1, 0, 0, 0, 1]"
proof -
  note t = tag_is_value_type [of "JBoolean True" "[2, 1, 0, 0, 0, 1]" 2 "[0x61]" 0
      "new_kv defaultOptions 0" meta_true kv_written_true]
  have g: "getValueType (JBoolean True) = Inr 2" by (simp add: TYPE_BOOLEAN_def)
  have l: "0 = length (dataFile (new_kv defaultOptions 0))" by (simp add: new_kv_def)
  from t serializeValue_true writeData_true l
  have b: "dataFile kv_written_true ! m_offset meta_true = m_type meta_true"
    and c: "take (m_size meta_true) (drop (m_offset meta_true) (dataFile kv_written_true))
              = [2, 1, 0, 0, 0, 1]"
    by auto
  show ?thesis
    using serializeValue_true writeData_true g l b c by blast
qed

text \<open>
  C10 as stated fails away from the end of the Data Log: \<open>writeData('b', 'x', 0)\<close> on a
  Data Log that holds the record of \<open>true\<close> returns metadata with offset 0 and the tag of
  a string, while the record at offset 0 is still the one of \<open>true\<close>, with the tag of a
  boolean; the new record is behind it.
\<close>

theorem tag_at_offset_counterexample:
  "fst (writeData [0x62] (JString [0x78]) 0 kv_written_true) = Inr meta_x_at_0
   \<and> m_type meta_x_at_0 = TYPE_STRING
   \<and> dataFile (snd (writeData [0x62] (JString [0x78]) 0 kv_written_true))
       = [2, 1, 0, 0, 0, 1, 4, 1, 0, 0, 0, 0x78]
   \<and> dataFile (snd (writeData [0x62] (JString [0x78]) 0 kv_written_true)) ! m_offset meta_x_at_0
       = TYPE_BOOLEAN
   \<and> TYPE_BOOLEAN \<noteq> m_type meta_x_at_0"
  by (simp add: writeData_def serializeValue_x kv_written_true_def new_kv_def fails_def
      TYPE_STRING_def TYPE_BOOLEAN_def append_write_def meta_x_at_0_def)

section \<open>Properties of the WAL flush and of the checkpoint\<close>

lemma update_absent: "k \<notin> fst ` set ps \<Longrightarrow> AList.update k v ps = ps @ [(k, v)]"
  by (induction ps) auto

lemma requeue_distinct_gen:
  "distinct (map fst (acc @ xs))
   \<Longrightarrow> foldl (\<lambda>p kc. AList.update (fst kc) (snd kc) p) acc xs = acc @ xs"
proof (induction xs arbitrary: acc)
  case Nil
  then show ?case by simp
next
  case (Cons x xs)
  have "fst x \<notin> fst ` set acc"
    using Cons.prems by auto
  then have "AList.update (fst x) (snd x) acc = acc @ [x]"
    by (simp add: update_absent)
  moreover have "distinct (map fst ((acc @ [x]) @ xs))"
    using Cons.prems by simp
  ultimately show ?case
    using Cons.IH [of "acc @ [x]"] by simp
qed

lemma requeue_empty: "distinct (map fst xs) \<Longrightarrow> requeue xs [] = xs"
  using requeue_distinct_gen [of "[]" xs] by (simp add: requeue_def)

text \<open>
  With a listener for \<open>'error'\<close> registered, a flush that reaches the write of the WAL
  while that write fails returns \<open>false\<close>, leaves the WAL file as it was, puts the batch
  back so that the pending-change set is the one before the flush, and sets
  \<open>walSizeBytes\<close> to the size \<open>fstat\<close> reports (0 when \<open>fstat\<close> itself fails).
\<close>

lemma flushToWAL_write_failure_handled:
  assumes "wal_entries (pendingChanges s) = Inr bufs" and "bufs \<noteq> []"
    and "fails WalWrite s"
    and "distinct (map fst (pendingChanges s))"
    and "errorListener s"
  shows "fst (flushToWAL forceSync s) = Inr False
       \<and> pendingChanges (snd (flushToWAL forceSync s)) = pendingChanges s
       \<and> walFile (snd (flushToWAL forceSync s)) = walFile s
       \<and> walSizeBytes (stats (snd (flushToWAL forceSync s)))
           = (if walFd s \<and> \<not> fails WalStat s then length (walFile s) else 0)"
proof -
  have ne: "pendingChanges s \<noteq> []"
    using assms(1,2) by auto
  show ?thesis
    using assms ne
    by (simp add: flushToWAL_def flushToWAL_gen_def flushToWAL_catch_def emit_error_def Let_def
        fails_def emit_def updateWalSizeStat_def requeue_empty)
qed

text \<open>
  Without a listener the same flush throws out of its handler: the batch, taken out of the
  pending-change set before the write, is not put back.
\<close>

lemma flushToWAL_write_failure_thrown:
  assumes "wal_entries (pendingChanges s) = Inr bufs" and "bufs \<noteq> []"
    and "fails WalWrite s"
    and "\<not> errorListener s"
  shows "fst (flushToWAL forceSync s) = Inl Unhandled
       \<and> pendingChanges (snd (flushToWAL forceSync s)) = []
       \<and> walSizeBytes (stats (snd (flushToWAL forceSync s))) = walSizeBytes (stats s)"
proof -
  have ne: "pendingChanges s \<noteq> []"
    using assms(1,2) by auto
  show ?thesis
    using assms ne
    by (simp add: flushToWAL_def flushToWAL_gen_def flushToWAL_catch_def emit_error_def Let_def
        fails_def emit_def)
qed

lemma wal_entries_pending_delete:
  "wal_entries (pendingChanges kv_pending_delete) = Inr [[2, 1, 0, 0, 0], [0x61]]"
  by (simp add: kv_pending_delete_def new_kv_def wal_entry_def Let_def enc1_def writeUInt8_def
      writeUInt32LE_def WAL_OP_SET_def byte_def)

text \<open>
  C4 fails on a new engine, which has no listener for \<open>'error'\<close>: with the change
  \<open>DELETE a\<close> pending and the write of the WAL failing, \<open>flushToWAL\<close> throws instead of
  returning \<open>false\<close>, and the pending-change set is empty afterwards. The same engine
  with a listener returns \<open>false\<close> and keeps the change.
\<close>

theorem flushToWAL_write_failure_unhandled:
  "\<not> errorListener kv_pending_delete \<and> fails WalWrite kv_pending_delete
   \<and> pendingChanges kv_pending_delete = [([0x61], \<lparr>c_op = Some 2, c_meta = None\<rparr>)]
   \<and> fst (flushToWAL True kv_pending_delete) = Inl Unhandled
   \<and> pendingChanges (snd (flushToWAL True kv_pending_delete)) = []
   \<and> fst (flushToWAL True (kv_pending_delete\<lparr>errorListener := True\<rparr>)) = Inr False
   \<and> pendingChanges (snd (flushToWAL True (kv_pending_delete\<lparr>errorListener := True\<rparr>)))
       = [([0x61], \<lparr>c_op = Some 2, c_meta = None\<rparr>)]"
proof -
  have l: "\<not> errorListener kv_pending_delete"
    by (simp add: kv_pending_delete_def new_kv_def)
  have f: "fails WalWrite kv_pending_delete"
    by (simp add: kv_pending_delete_def fails_def)
  have p: "pendingChanges kv_pending_delete = [([0x61], \<lparr>c_op = Some 2, c_meta = None\<rparr>)]"
    by (simp add: kv_pending_delete_def)
  let ?h = "kv_pending_delete\<lparr>errorListener := True\<rparr>"
  have w': "wal_entries (pendingChanges ?h) = Inr [[2, 1, 0, 0, 0], [0x61]]"
    using wal_entries_pending_delete by simp
  have f': "fails WalWrite ?h" using f by (simp add: fails_def)
  have d': "distinct (map fst (pendingChanges ?h))" by (simp add: p)
  note a = flushToWAL_write_failure_thrown [OF wal_entries_pending_delete _ f l, of True]
  note b = flushToWAL_write_failure_handled [OF w' _ f' d', of True]
  show ?thesis
    using l f p a b by simp
qed

lemma flushToWAL_gen_id_frame:
  assumes "flushToWAL_gen (\<lambda>s. (Inr False, s)) fs s = (r, s')"
  shows "faults s' = faults s \<and> indexFile s' = indexFile s \<and> tmpIndexFile s' = tmpIndexFile s
       \<and> isCheckpointing s' = isCheckpointing s \<and> errorListener s' = errorListener s
       \<and> take (length (walFile s)) (walFile s') = walFile s"
  using assms
  by (auto simp: flushToWAL_gen_def flushToWAL_catch_def emit_error_def Let_def fails_def emit_def
      updateWalSizeStat_def checkIfCheckpointNeededBySize_gen_def append_write_def
      split: if_splits sum.splits)

lemma checkpoint_try_failure:
  assumes "fails TmpOpen s \<or> fails TmpWrite s \<or> fails TmpRename s"
  shows "\<exists>e s'. checkpoint_try force closing s = (Inl e, s') \<and> faults s' = faults s
       \<and> indexFile s' = indexFile s \<and> errorListener s' = errorListener s
       \<and> take (length (walFile s)) (walFile s') = walFile s
       \<and> (fails TmpRename s \<and> \<not> fails TmpOpen s \<and> \<not> fails TmpWrite s
            \<and> (closing \<or> pendingChanges s = []) \<longrightarrow> tmpIndexFile s' \<noteq> None)"
proof (cases closing)
  case True
  then show ?thesis
    using assms by (auto simp: checkpoint_try_def Let_def fails_def split: sum.splits)
next
  case False
  obtain r s1 where fl: "flushToWAL_gen (\<lambda>s. (Inr False, s)) (syncOnWrite (opts s) \<or> force) s = (r, s1)"
    by (cases "flushToWAL_gen (\<lambda>s. (Inr False, s)) (syncOnWrite (opts s) \<or> force) s") auto
  note fr = flushToWAL_gen_id_frame [OF fl]
  show ?thesis
    using assms False fl fr
    by (cases "pendingChanges s = []")
       (auto simp: checkpoint_try_def Let_def fails_def flushToWAL_gen_def split: sum.splits)
qed

text \<open>
  With a listener for \<open>'error'\<close> registered, a checkpoint that is not skipped, while
  opening or writing the temporary file or renaming it fails, returns \<open>false\<close>; the base
  index file is what it was; the guard \<open>isCheckpointing\<close> is released; the temporary file
  is gone when the \<open>unlink\<close> of the handler succeeds; the WAL still starts with all it
  held. Without a listener it throws, and a temporary file that was written stays.
\<close>

lemma performCheckpoint_failure_cases:
  assumes "fails TmpOpen s \<or> fails TmpWrite s \<or> fails TmpRename s"
    and "\<not> isCheckpointing s \<or> closing"
  shows "fst (performCheckpoint force closing s) = (if errorListener s then Inr False else Inl Unhandled)
       \<and> indexFile (snd (performCheckpoint force closing s)) = indexFile s
       \<and> \<not> isCheckpointing (snd (performCheckpoint force closing s))
       \<and> (errorListener s \<and> \<not> fails TmpUnlink s
            \<longrightarrow> tmpIndexFile (snd (performCheckpoint force closing s)) = None)
       \<and> (\<not> errorListener s \<and> fails TmpRename s \<and> \<not> fails TmpOpen s \<and> \<not> fails TmpWrite s
            \<and> (closing \<or> pendingChanges s = [])
            \<longrightarrow> tmpIndexFile (snd (performCheckpoint force closing s)) \<noteq> None)
       \<and> take (length (walFile s)) (walFile (snd (performCheckpoint force closing s))) = walFile s"
proof -
  define s2 where "s2 = (if \<not> closing then emit CheckpointStart (s\<lparr>isCheckpointing := True\<rparr>)
                         else s\<lparr>isCheckpointing := True\<rparr>)"
  have f2: "fails TmpOpen s2 \<or> fails TmpWrite s2 \<or> fails TmpRename s2"
    using assms(1) by (auto simp: s2_def fails_def emit_def)
  have eq2: "faults s2 = faults s" "indexFile s2 = indexFile s" "walFile s2 = walFile s"
    "errorListener s2 = errorListener s" "pendingChanges s2 = pendingChanges s"
    by (auto simp: s2_def emit_def)
  obtain e s3 where t: "checkpoint_try force closing s2 = (Inl e, s3)"
    and fr: "faults s3 = faults s2" "indexFile s3 = indexFile s2" "errorListener s3 = errorListener s2"
      "take (length (walFile s2)) (walFile s3) = walFile s2"
      "fails TmpRename s2 \<and> \<not> fails TmpOpen s2 \<and> \<not> fails TmpWrite s2
         \<and> (closing \<or> pendingChanges s2 = []) \<longrightarrow> tmpIndexFile s3 \<noteq> None"
    using checkpoint_try_failure [OF f2, of force closing] by blast
  have pc: "performCheckpoint force closing s
              = (case checkpoint_catch s3 of
                   (Inl e', s4) \<Rightarrow> (Inl e', s4\<lparr>isCheckpointing := False\<rparr>)
                 | (Inr u, s4) \<Rightarrow> (Inr False, s4\<lparr>isCheckpointing := False\<rparr>))"
    using assms(2) t by (auto simp: performCheckpoint_def Let_def s2_def)
  have u: "fails c s3 = fails c s" for c
    using fr(1) eq2(1) by (simp add: fails_def)
  show ?thesis
    unfolding pc using fr eq2 u
    by (cases "errorListener s") (simp_all add: checkpoint_catch_def emit_error_def emit_def fails_def)
qed

text \<open>
  C5 fails on a new engine, which has no listener for \<open>'error'\<close>: when the rename of the
  temporary file fails, \<open>performCheckpoint\<close> throws instead of returning \<open>false\<close>, and
  the temporary file is left behind. The guard is released and the base index file is
  untouched. The same engine with a listener returns \<open>false\<close> and removes the temporary
  file.
\<close>

theorem performCheckpoint_failure_unhandled:
  "\<not> errorListener kv_rename_fails \<and> fails TmpRename kv_rename_fails
   \<and> \<not> fails TmpUnlink kv_rename_fails \<and> \<not> isCheckpointing kv_rename_fails
   \<and> fst (performCheckpoint True False kv_rename_fails) = Inl Unhandled
   \<and> tmpIndexFile (snd (performCheckpoint True False kv_rename_fails)) \<noteq> None
   \<and> indexFile (snd (performCheckpoint True False kv_rename_fails)) = indexFile kv_rename_fails
   \<and> \<not> isCheckpointing (snd (performCheckpoint True False kv_rename_fails))
   \<and> fst (performCheckpoint True False (kv_rename_fails\<lparr>errorListener := True\<rparr>)) = Inr False
   \<and> tmpIndexFile (snd (performCheckpoint True False (kv_rename_fails\<lparr>errorListener := True\<rparr>))) = None"
proof -
  let ?h = "kv_rename_fails\<lparr>errorListener := True\<rparr>"
  have l: "\<not> errorListener kv_rename_fails" "\<not> isCheckpointing kv_rename_fails"
    "pendingChanges kv_rename_fails = []"
    by (simp_all add: kv_rename_fails_def new_kv_def)
  have f: "fails TmpRename kv_rename_fails" "\<not> fails TmpUnlink kv_rename_fails"
    "\<not> fails TmpOpen kv_rename_fails" "\<not> fails TmpWrite kv_rename_fails"
    by (simp_all add: kv_rename_fails_def fails_def)
  have f': "fails TmpRename ?h" "\<not> fails TmpUnlink ?h" "\<not> isCheckpointing ?h" "errorListener ?h"
    using f l by (simp_all add: fails_def)
  have a1: "fails TmpOpen kv_rename_fails \<or> fails TmpWrite kv_rename_fails \<or> fails TmpRename kv_rename_fails"
    using f by simp
  have a2: "\<not> isCheckpointing kv_rename_fails \<or> False" using l by simp
  have b1: "fails TmpOpen ?h \<or> fails TmpWrite ?h \<or> fails TmpRename ?h" using f' by simp
  have b2: "\<not> isCheckpointing ?h \<or> False" using f' by simp
  note a = performCheckpoint_failure_cases [OF a1 a2, of True]
  note b = performCheckpoint_failure_cases [OF b1 b2, of True]
  show ?thesis
    using l f f' a b by simp
qed

section \<open>Properties of \<open>set\<close>\<close>

lemma set_flush_core:
  "engine_core (snd (set_flush k v s)) = engine_core (scheduleDataFlush s)"
proof -
  obtain r s6 where f: "flushIndexManagerToWAL True (scheduleDataFlush s) = (r, s6)"
    by (cases "flushIndexManagerToWAL True (scheduleDataFlush s)") auto
  have "engine_core s6 = engine_core (scheduleDataFlush s)"
    using flushIndexManagerToWAL_core[of True "scheduleDataFlush s"] f by simp
  then show ?thesis
    using f by (cases r) (simp_all add: set_flush_def Let_def flushDataToStorage_stuck)
qed

lemma scheduleDataFlush_fields:
  "ttlMap (scheduleDataFlush s) = ttlMap s" "timers (scheduleDataFlush s) = timers s"
  "index (scheduleDataFlush s) = index s" "store (scheduleDataFlush s) = store s"
  "lruKeys (scheduleDataFlush s) = lruKeys s" "dirtyDataKeys (scheduleDataFlush s) = dirtyDataKeys s"
  "dataFile (scheduleDataFlush s) = dataFile s" "opts (scheduleDataFlush s) = opts s"
  by (simp_all add: scheduleDataFlush_def)

lemma set_flush_fields:
  "ttlMap (snd (set_flush k v s)) = ttlMap s" "timers (snd (set_flush k v s)) = timers s"
  "index (snd (set_flush k v s)) = index s" "store (snd (set_flush k v s)) = store s"
  "lruKeys (snd (set_flush k v s)) = lruKeys s" "dirtyDataKeys (snd (set_flush k v s)) = dirtyDataKeys s"
  "dataFile (snd (set_flush k v s)) = dataFile s" "opts (snd (set_flush k v s)) = opts s"
  using engine_coreD [OF set_flush_core [of k v s]]
    cache_coreD [OF engine_coreD(1) [OF set_flush_core [of k v s]]]
  by (simp_all add: scheduleDataFlush_fields)

lemma set_cache_fields:
  "ttlMap (set_cache k v s) = ttlMap s" "timers (set_cache k v s) = timers s"
  "index (set_cache k v s) = index s" "opts (set_cache k v s) = opts s"
  "dataFile (set_cache k v s) = dataFile s"
  by (simp_all add: set_cache_def Let_def updateLRU_def index_get_def split: option.splits)

lemma scheduleIndexFlush_fields [simp]:
  "ttlMap (scheduleIndexFlush s) = ttlMap s" "timers (scheduleIndexFlush s) = timers s"
  "index (scheduleIndexFlush s) = index s"
  by (simp_all add: scheduleIndexFlush_def)

lemma drop_expiry_update_fields:
  "ttlMap (drop_expiry_update k op s) = ttlMap s" "timers (drop_expiry_update k op s) = timers s"
  "index_get (drop_expiry_update k op s) k = map_option (\<lambda>m. m\<lparr>m_expiry := None\<rparr>) (index_get s k)"
  by (simp_all add: drop_expiry_update_def Let_def addChange_def index_set_def index_get_def
      update_conv' split: option.splits)

lemma set_cache_ttl_default:
  "set_cache [0x61] JNull kv_ttl_default = kv_ttl_default\<lparr>store := [([0x61], JNull)], dirtyDataKeys := [[0x61]],
     stats := (initial_stats 0)\<lparr>writes := 1\<rparr>\<rparr>"
  by (simp add: set_cache_def kv_ttl_default_def new_kv_def defaultOptions_def updateLRU_def set_add_def index_get_def Let_def initial_stats_def)

text \<open>
  C9 as stated fails when a positive \<open>defaultTTL\<close> is configured: \<open>ttl: 0\<close> is falsy
  in \<open>options.ttl || this.options.defaultTTL\<close>, so the default is applied and a new
  expiry is written.
\<close>

theorem set_zero_ttl_counterexample:
  "map_of (ttlMap kv_ttl_default) [0x61] = Some \<lparr>t_expiry = 500, t_timeout = 0\<rparr>
   \<and> index_get (snd (kv_set [0x61] JNull (Some 0) kv_ttl_default)) [0x61]
       = Some \<lparr>m_offset = 0, m_size = 5, m_type = 0, m_expiry = Some 1000\<rparr>
   \<and> map_of (ttlMap (snd (kv_set [0x61] JNull (Some 0) kv_ttl_default))) [0x61]
       = Some \<lparr>t_expiry = 1000, t_timeout = 1\<rparr>"
proof -
  have c: "\<not> isClosing kv_ttl_default" by (simp add: kv_ttl_default_def new_kv_def)
  have kv: "snd (kv_set [0x61] JNull (Some 0) kv_ttl_default)
      = snd (set_flush [0x61] JNull (set_ttl [0x61] (Some 0) (set_cache [0x61] JNull kv_ttl_default)))"
    using c by (simp add: kv_set_def)
  have t: "ttlMap (set_ttl [0x61] (Some 0) (set_cache [0x61] JNull kv_ttl_default)) = [([0x61], \<lparr>t_expiry = 1000, t_timeout = 1\<rparr>)]"
     "index (set_ttl [0x61] (Some 0) (set_cache [0x61] JNull kv_ttl_default)) = [([0x61], \<lparr>m_offset = 0, m_size = 5, m_type = 0, m_expiry = Some 1000\<rparr>)]"
    unfolding set_cache_ttl_default
    by (simp_all add: set_ttl_def kv_ttl_default_def new_kv_def defaultOptions_def
        ttl_or_default_def truthy_def setTTL_def clearTimeout_def Let_def index_has_def map_has_def
        index_get_def index_set_def addChange_def scheduleIndexFlush_def)
  show ?thesis
    unfolding kv by (simp add: set_flush_fields t index_get_def) (simp add: kv_ttl_default_def)
qed


section \<open>Properties of the cache and of values that do not serialize\<close>

lemma keys_update: "fst ` set (AList.update k v al) = insert k (fst ` set al)"
  by (induction al) auto

lemma keys_delete: "fst ` set (AList.delete k al) = fst ` set al - {k}"
  by (induction al) auto

lemma pushed_props:
  assumes "distinct lru"
  shows "distinct (remove1 k lru @ [k])" and "set (remove1 k lru @ [k]) = insert k (set lru)"
    and "length (remove1 k lru @ [k]) = (if k \<in> set lru then length lru else Suc (length lru))"
  using assms by (auto simp: length_remove1 dest: length_pos_if_in_set)

lemma touch_ok:
  fixes k :: key and lru :: "key list"
  assumes "lru_ok n lru st"
  defines "pushed \<equiv> remove1 k lru @ [k]"
  shows "lru_ok n (if n < length pushed then tl pushed else pushed)
           (if n < length pushed then AList.delete (hd pushed) (AList.update k v st) else AList.update k v st)"
proof -
  have d: "distinct lru" and l: "length lru \<le> n" and sub: "fst ` set st \<subseteq> set lru"
    and dk: "distinct (map fst st)"
    using assms(1) by (auto simp: lru_ok_def)
  note pp = pushed_props[OF d, of k, folded pushed_def]
  have ne: "pushed \<noteq> []" by (simp add: pushed_def)
  have dk1: "distinct (map fst (AList.update k v st))" using dk by (rule distinct_update)
  show ?thesis
  proof (cases "n < length pushed")
    case True
    have st: "set (tl pushed) = set pushed - {hd pushed}"
      using pp(1) ne by (cases pushed) auto
    have "length (tl pushed) \<le> n" using True pp(3) l by (auto split: if_splits)
    moreover have "distinct (tl pushed)" using pp(1) by (rule distinct_tl)
    moreover have "fst ` set (AList.delete (hd pushed) (AList.update k v st)) \<subseteq> set (tl pushed)"
      using sub pp(2) by (auto simp: keys_delete keys_update st)
    moreover have "distinct (map fst (AList.delete (hd pushed) (AList.update k v st)))"
      using dk1 by (rule distinct_delete)
    ultimately show ?thesis using True by (simp add: lru_ok_def)
  next
    case False
    then show ?thesis using pp sub dk1 by (auto simp: lru_ok_def keys_update)
  qed
qed


lemma lastn_append_one: "\<exists>Q. T @ [k] = Q @ lastn n (T @ [k])"
  by (metis append_take_drop_id lastn_def)

lemma length_lastn: "length (lastn n xs) = min n (length xs)"
  by (auto simp: lastn_def)

lemma set_lastn: "set (lastn n xs) \<subseteq> set xs"
  by (simp add: lastn_def set_drop_subset)

lemma lastn_lastn_append: "lastn n (lastn n xs @ ys) = lastn n (xs @ ys)"
  by (cases "length xs \<le> n"; cases "length ys \<le> n") (auto simp: lastn_def ac_simps)

lemma touch_suffix:
  fixes k :: key and lru :: "key list" and v :: jsvalue
  assumes ok: "lru_ok n lru st" and lru: "lru = P @ T" and kT: "k \<notin> set T"
    and Tst: "set T \<subseteq> fst ` set st"
  defines "pushed \<equiv> remove1 k lru @ [k]"
  defines "lru' \<equiv> (if n < length pushed then tl pushed else pushed)"
  defines "st' \<equiv> (if n < length pushed then AList.delete (hd pushed) (AList.update k v st) else AList.update k v st)"
  shows "\<exists>P'. lru' = P' @ lastn n (T @ [k])" and "set (lastn n (T @ [k])) \<subseteq> fst ` set st'"
proof -
  have d: "distinct lru" using ok by (simp add: lru_ok_def)
  note pp = pushed_props[OF d, of k, folded pushed_def]
  obtain Q where Q: "T @ [k] = Q @ lastn n (T @ [k])" using lastn_append_one[of T k n] by blast
  have pu: "pushed = (remove1 k P @ Q) @ lastn n (T @ [k])"
    using kT Q by (simp add: pushed_def lru remove1_append remove1_idem)
  have sub1: "set (lastn n (T @ [k])) \<subseteq> fst ` set (AList.update k v st)"
    using set_lastn[of n "T @ [k]"] Tst by (auto simp: keys_update)
  show "\<exists>P'. lru' = P' @ lastn n (T @ [k])"
  proof (cases "n < length pushed")
    case True
    have "length (lastn n (T @ [k])) \<le> n" by (simp add: length_lastn)
    then have "remove1 k P @ Q \<noteq> []" using True pu by auto
    then have "tl pushed = tl (remove1 k P @ Q) @ lastn n (T @ [k])"
      unfolding pu by (rule tl_append2)
    then show ?thesis using True by (auto simp: lru'_def)
  next
    case False
    then show ?thesis using pu by (auto simp: lru'_def)
  qed
  show "set (lastn n (T @ [k])) \<subseteq> fst ` set st'"
  proof (cases "n < length pushed")
    case True
    have "length (lastn n (T @ [k])) \<le> n" by (simp add: length_lastn)
    then have ne: "remove1 k P @ Q \<noteq> []" using True pu by auto
    then have "hd pushed \<in> set (remove1 k P @ Q)" using pu by (cases "remove1 k P @ Q") auto
    moreover have "distinct ((remove1 k P @ Q) @ lastn n (T @ [k]))" using pp(1) pu by simp
    ultimately have "hd pushed \<notin> set (lastn n (T @ [k]))" by auto
    then show ?thesis using True sub1 by (auto simp: st'_def keys_delete)
  next
    case False
    then show ?thesis using sub1 by (simp add: st'_def)
  qed
qed

lemma updateLRU_frame:
  "index (updateLRU k b s) = index s" "opts (updateLRU k b s) = opts s"
  "isClosing (updateLRU k b s) = isClosing s" "dataFile (updateLRU k b s) = dataFile s"
  "dataFd (updateLRU k b s) = dataFd s" "faults (updateLRU k b s) = faults s"
  by (simp_all add: updateLRU_def Let_def split: option.splits)

lemma updateLRU_capped:
  assumes "maxMemoryKeys (opts s) = Some n"
  shows "lruKeys (updateLRU k b s)
           = (if n < length (remove1 k (lruKeys s) @ [k]) then tl (remove1 k (lruKeys s) @ [k])
              else remove1 k (lruKeys s) @ [k])"
    and "store (updateLRU k b s)
           = (if n < length (remove1 k (lruKeys s) @ [k])
              then AList.delete (hd (remove1 k (lruKeys s) @ [k])) (store s)
              else store s)"
  using assms by (simp_all add: updateLRU_def Let_def)

lemma readValue_frame:
  "store (snd (readValue m s)) = store s" "lruKeys (snd (readValue m s)) = lruKeys s"
  "opts (snd (readValue m s)) = opts s" "index (snd (readValue m s)) = index s"
  "isClosing (snd (readValue m s)) = isClosing s" "dataFile (snd (readValue m s)) = dataFile s"
  "dataFd (snd (readValue m s)) = dataFd s" "faults (snd (readValue m s)) = faults s"
  by (simp_all add: readValue_def Let_def)

lemma readValue_stats: "fst (readValue m (s\<lparr>stats := st\<rparr>)) = fst (readValue m s)"
  by (simp add: readValue_def Let_def fails_def)

lemma get_miss_frame:
  "store (snd (get_miss k s)) = store s" "lruKeys (snd (get_miss k s)) = lruKeys s"
  "opts (snd (get_miss k s)) = opts s" "index (snd (get_miss k s)) = index s"
  "isClosing (snd (get_miss k s)) = isClosing s" "dataFile (snd (get_miss k s)) = dataFile s"
  "dataFd (snd (get_miss k s)) = dataFd s" "faults (snd (get_miss k s)) = faults s"
  by (simp_all add: get_miss_def emit_def)

lemma get_cached_frame:
  "opts (snd (get_cached k v s)) = opts s" "index (snd (get_cached k v s)) = index s"
  "isClosing (snd (get_cached k v s)) = isClosing s" "dataFile (snd (get_cached k v s)) = dataFile s"
  "dataFd (snd (get_cached k v s)) = dataFd s" "faults (snd (get_cached k v s)) = faults s"
  by (simp_all add: get_cached_def emit_def updateLRU_frame)

lemma get_disk_frame:
  "opts (snd (get_disk k m s)) = opts s" "index (snd (get_disk k m s)) = index s"
  "isClosing (snd (get_disk k m s)) = isClosing s" "dataFile (snd (get_disk k m s)) = dataFile s"
  "dataFd (snd (get_disk k m s)) = dataFd s" "faults (snd (get_disk k m s)) = faults s"
proof -
  obtain r s2 where rv: "readValue m s = (r, s2)" by (cases "readValue m s") auto
  have f: "opts s2 = opts s" "index s2 = index s" "isClosing s2 = isClosing s"
    "dataFile s2 = dataFile s" "dataFd s2 = dataFd s" "faults s2 = faults s"
    using readValue_frame[of m s] rv by simp_all
  show "opts (snd (get_disk k m s)) = opts s" "index (snd (get_disk k m s)) = index s"
    "isClosing (snd (get_disk k m s)) = isClosing s" "dataFile (snd (get_disk k m s)) = dataFile s"
    "dataFd (snd (get_disk k m s)) = dataFd s" "faults (snd (get_disk k m s)) = faults s"
    using rv f by (cases r; simp add: get_disk_def Let_def emit_def updateLRU_frame get_miss_frame)+
qed

lemma kv_get_frame:
  "index (snd (kv_get k s)) = index s" "opts (snd (kv_get k s)) = opts s"
  "isClosing (snd (kv_get k s)) = isClosing s" "dataFile (snd (kv_get k s)) = dataFile s"
  "dataFd (snd (kv_get k s)) = dataFd s" "faults (snd (kv_get k s)) = faults s"
  by (simp_all add: kv_get_def Let_def get_cached_frame get_disk_frame get_miss_frame
      split: option.splits)

text \<open>The effect of a \<open>get\<close> that finds the value on the cache and the recency list.\<close>

lemma kv_get_hit:
  assumes "readable s k" and "maxMemoryKeys (opts s) = Some n"
  shows "\<exists>v. lruKeys (snd (kv_get k s))
               = (if n < length (remove1 k (lruKeys s) @ [k]) then tl (remove1 k (lruKeys s) @ [k])
                  else remove1 k (lruKeys s) @ [k])
           \<and> store (snd (kv_get k s))
               = (if n < length (remove1 k (lruKeys s) @ [k])
                  then AList.delete (hd (remove1 k (lruKeys s) @ [k])) (AList.update k v (store s))
                  else AList.update k v (store s))"
proof (cases "map_of (store s) k")
  case (Some v)
  have u: "AList.update k v (store s) = store s" using Some by (simp add: update_triv)
  have "kv_get k s = get_cached k v (s\<lparr>stats := (stats s)\<lparr>reads := reads (stats s) + 1, lastAccess := now s\<rparr>\<rparr>)"
    using assms(1) Some by (simp add: kv_get_def readable_def Let_def)
  then show ?thesis using assms(2) u
    by (intro exI[of _ v]) (simp add: get_cached_def emit_def updateLRU_capped)
next
  case None
  let ?s1 = "s\<lparr>stats := (stats s)\<lparr>reads := reads (stats s) + 1, lastAccess := now s\<rparr>\<rparr>"
  from None obtain m where m: "index_get s k = Some m"
    using assms(1) by (auto simp: readable_def map_has_def split: option.splits)
  obtain v where v: "fst (readValue m s) = Inr v"
    using assms(1) None m by (auto simp: readable_def map_has_def split: sum.splits)
  have "fst (readValue m ?s1) = Inr v"
    using v by (simp only: readValue_stats)
  then obtain s2 where rv: "readValue m ?s1 = (Inr v, s2)"
    by (cases "readValue m ?s1") auto
  have f: "store s2 = store s" "lruKeys s2 = lruKeys s" "opts s2 = opts s"
    using readValue_frame[of m ?s1] rv by simp_all
  have g: "kv_get k s = get_disk k m ?s1"
    using assms(1) None m by (simp add: kv_get_def readable_def Let_def index_get_def)
  show ?thesis
    unfolding g using assms(2) f rv
    by (intro exI[of _ v]) (simp add: get_disk_def Let_def emit_def updateLRU_capped)
qed

lemma kv_get_miss:
  assumes "\<not> readable s k"
  shows "lruKeys (snd (kv_get k s)) = lruKeys s" and "store (snd (kv_get k s)) = store s"
proof -
  let ?s1 = "s\<lparr>stats := (stats s)\<lparr>reads := reads (stats s) + 1, lastAccess := now s\<rparr>\<rparr>"
  have d: "\<And>m. index_get s k = Some m \<Longrightarrow> map_of (store s) k = None \<Longrightarrow> \<not> isClosing s \<Longrightarrow> k \<noteq> []
         \<Longrightarrow> get_disk k m ?s1 = get_miss k (snd (readValue m ?s1))"
  proof -
    fix m assume a: "index_get s k = Some m" "map_of (store s) k = None" "\<not> isClosing s" "k \<noteq> []"
    then obtain e where "fst (readValue m s) = Inl e"
      using assms by (auto simp: readable_def map_has_def split: sum.splits)
    then have "fst (readValue m ?s1) = Inl e" by (simp only: readValue_stats)
    then show "get_disk k m ?s1 = get_miss k (snd (readValue m ?s1))"
      by (cases "readValue m ?s1") (simp add: get_disk_def)
  qed
  have c: "snd (kv_get k s) = s \<or> snd (kv_get k s) = snd (get_miss k ?s1)
           \<or> (\<exists>m. snd (kv_get k s) = snd (get_miss k (snd (readValue m ?s1))))"
  proof (cases "isClosing s \<or> k = []")
    case True
    then show ?thesis by (auto simp: kv_get_def)
  next
    case False
    have n: "map_of (store s) k = None"
      using assms False by (auto simp: readable_def map_has_def)
    show ?thesis
    proof (cases "index_get s k")
      case None
      then show ?thesis using False n by (simp add: kv_get_def Let_def index_get_def)
    next
      case (Some m)
      then have "kv_get k s = get_disk k m ?s1"
        using False n by (simp add: kv_get_def Let_def index_get_def)
      then show ?thesis using d[OF Some n] False by auto
    qed
  qed
  show "lruKeys (snd (kv_get k s)) = lruKeys s" using c
    by (auto simp: get_miss_frame readValue_frame)
  show "store (snd (kv_get k s)) = store s" using c
    by (auto simp: get_miss_frame readValue_frame)
qed

lemma lru_ok_length: "lru_ok n lru st \<Longrightarrow> length st \<le> n"
proof -
  assume ok: "lru_ok n lru st"
  have "length st = card (fst ` set st)"
    using ok distinct_card[of "map fst st"] by (simp add: lru_ok_def)
  also have "\<dots> \<le> card (set lru)"
    using ok by (intro card_mono) (auto simp: lru_ok_def)
  also have "\<dots> \<le> length lru" by (rule card_length)
  finally show ?thesis using ok by (simp add: lru_ok_def)
qed

lemma kv_get_lru_ok:
  assumes "maxMemoryKeys (opts s) = Some n" and "lru_ok n (lruKeys s) (store s)"
  shows "lru_ok n (lruKeys (snd (kv_get k s))) (store (snd (kv_get k s)))"
proof (cases "readable s k")
  case True
  from kv_get_hit[OF True assms(1)] obtain v where
    "lruKeys (snd (kv_get k s))
               = (if n < length (remove1 k (lruKeys s) @ [k]) then tl (remove1 k (lruKeys s) @ [k])
                  else remove1 k (lruKeys s) @ [k])"
    "store (snd (kv_get k s))
               = (if n < length (remove1 k (lruKeys s) @ [k])
                  then AList.delete (hd (remove1 k (lruKeys s) @ [k])) (AList.update k v (store s))
                  else AList.update k v (store s))"
    by blast
  then show ?thesis using touch_ok[OF assms(2), of k v] by simp
next
  case False
  then show ?thesis using assms(2) by (simp add: kv_get_miss)
qed

lemma set_cache_lru:
  assumes "maxMemoryKeys (opts s) = Some n"
  shows "lruKeys (set_cache k v s)
           = (if n < length (remove1 k (lruKeys s) @ [k]) then tl (remove1 k (lruKeys s) @ [k])
              else remove1 k (lruKeys s) @ [k])"
    and "store (set_cache k v s)
           = (if n < length (remove1 k (lruKeys s) @ [k])
              then AList.delete (hd (remove1 k (lruKeys s) @ [k])) (AList.update k v (store s))
              else AList.update k v (store s))"
  using assms by (simp_all add: set_cache_def updateLRU_def Let_def)

lemma cache_core_parts [simp]:
  "cache_core (clearTimeout h s) = cache_core s"
  "cache_core (addChange k op mo s) = cache_core s"
  "cache_core (index_set k m s) = cache_core s"
  "cache_core (index_delete k s) = cache_core s"
  "cache_core (scheduleIndexFlush s) = cache_core s"
  by (simp_all add: clearTimeout_def addChange_def index_set_def index_delete_def
      scheduleIndexFlush_def)

lemma drop_expiry_update_cache [simp]: "cache_core (drop_expiry_update k op s) = cache_core s"
  by (simp add: drop_expiry_update_def Let_def split: option.splits)

lemma setTTL_cache [simp]: "cache_core (setTTL k t b s) = cache_core s"
  by (simp add: setTTL_def Let_def split: option.splits)

lemma set_ttl_cache: "cache_core (set_ttl k t s) = cache_core s"
  by (simp add: set_ttl_def Let_def split: option.splits)

lemma set_ttl_frame:
  "store (set_ttl k t s) = store s" "lruKeys (set_ttl k t s) = lruKeys s"
  "opts (set_ttl k t s) = opts s" "dirtyDataKeys (set_ttl k t s) = dirtyDataKeys s"
  "dataFile (set_ttl k t s) = dataFile s"
  using cache_coreD [OF set_ttl_cache [of k t s]] by simp_all

lemma kv_set_lru_ok:
  assumes "maxMemoryKeys (opts s) = Some n" and "lru_ok n (lruKeys s) (store s)"
  shows "lru_ok n (lruKeys (snd (kv_set k v t s))) (store (snd (kv_set k v t s)))"
  using assms touch_ok[OF assms(2), of k v]
  by (simp add: kv_set_def set_flush_fields set_ttl_frame set_cache_lru)

lemma kv_set_opts: "opts (snd (kv_set k v t s)) = opts s"
  by (simp add: kv_set_def set_flush_fields set_ttl_frame set_cache_fields)

lemma delete_entries_frame:
  "opts (delete_entries k s) = opts s" "lruKeys (delete_entries k s) = lruKeys s"
  "store (delete_entries k s) = (if map_has (store s) k then AList.delete k (store s) else store s)"
  "dataFile (delete_entries k s) = dataFile s"
  by (simp_all add: delete_entries_def Let_def addChange_def index_delete_def index_get_def
      split: option.splits)

lemma delete_flush_core: "cache_core (snd (delete_flush k s)) = cache_core s"
proof -
  let ?s3 = "scheduleIndexFlush (s\<lparr>stats := (stats s)\<lparr>deletes := deletes (stats s) + 1, lastAccess := now s\<rparr>\<rparr>)"
  obtain r s4 where fl: "flushIndexManagerToWAL True ?s3 = (r, s4)"
    by (cases "flushIndexManagerToWAL True ?s3") auto
  have "cache_core s4 = cache_core ?s3"
    using engine_coreD(1) [OF flushIndexManagerToWAL_core [of True ?s3]] fl by simp
  then show ?thesis
    using fl by (cases r) (simp_all add: delete_flush_def Let_def)
qed

lemma kv_delete_frame:
  "opts (snd (kv_delete k s)) = opts s" "lruKeys (snd (kv_delete k s)) = lruKeys s"
  "store (snd (kv_delete k s)) = store s \<or> store (snd (kv_delete k s)) = AList.delete k (store s)"
  "dataFile (snd (kv_delete k s)) = dataFile s"
  using cache_coreD [OF delete_flush_core [of k "delete_entries k s"]]
  by (simp_all add: kv_delete_def delete_entries_frame)

lemma kv_delete_lru_ok:
  assumes "lru_ok n (lruKeys s) (store s)"
  shows "lru_ok n (lruKeys (snd (kv_delete k s))) (store (snd (kv_delete k s)))"
proof -
  have "lru_ok n (lruKeys s) (AList.delete k (store s))"
    using assms by (auto simp: lru_ok_def keys_delete distinct_delete)
  then show ?thesis
    using kv_delete_frame(2,3)[of k s] assms by auto
qed

lemma run_op_lru_ok:
  assumes "maxMemoryKeys (opts s) = Some n" and "lru_ok n (lruKeys s) (store s)"
  shows "lru_ok n (lruKeys (run_op op s)) (store (run_op op s)) \<and> opts (run_op op s) = opts s"
proof (cases op)
  case (OpSet k v t)
  then show ?thesis using assms by (simp add: kv_set_lru_ok kv_set_opts)
next
  case (OpGet k)
  then show ?thesis using assms by (simp add: kv_get_lru_ok kv_get_frame)
next
  case (OpDelete k)
  then show ?thesis using kv_delete_lru_ok[OF assms(2), of k] kv_delete_frame(1)[of k s] by simp
qed

lemma run_ops_lru_ok:
  assumes "maxMemoryKeys (opts s) = Some n" and "lru_ok n (lruKeys s) (store s)"
  shows "lru_ok n (lruKeys (run_ops ops s)) (store (run_ops ops s))"
  using assms
proof (induction ops arbitrary: s)
  case Nil
  then show ?case by (simp add: run_ops_def)
next
  case (Cons op ops)
  have "run_ops (op # ops) s = run_ops ops (run_op op s)" by (simp add: run_ops_def)
  then show ?case
    using Cons.IH[of "run_op op s"] run_op_lru_ok[OF Cons.prems, of op] Cons.prems(1) by simp
qed

lemma distinct_lastn_append:
  "distinct (xs @ ks) \<Longrightarrow> distinct (lastn n xs @ ks)"
  using set_lastn[of n xs] by (auto simp: lastn_def)

lemma all_hit_read_all:
  assumes "maxMemoryKeys (opts s) = Some n" and "lru_ok n (lruKeys s) (store s)"
    and "lruKeys s = P @ T" and "set T \<subseteq> fst ` set (store s)"
    and "distinct (T @ ks)" and "all_hit ks s"
  shows "(\<exists>P'. lruKeys (read_all ks s) = P' @ lastn n (T @ ks))
       \<and> set (lastn n (T @ ks)) \<subseteq> fst ` set (store (read_all ks s))
       \<and> lru_ok n (lruKeys (read_all ks s)) (store (read_all ks s))
       \<and> index (read_all ks s) = index s"
  using assms
proof (induction ks arbitrary: s P T)
  case Nil
  have "P @ T = (P @ take (length T - n) T) @ lastn n T"
    by (simp add: lastn_def)
  then have "\<exists>P'. lruKeys s = P' @ lastn n T" using Nil.prems(3) by metis
  then show ?case using Nil.prems set_lastn[of n T] by auto
next
  case (Cons k ks)
  let ?s1 = "snd (kv_get k s)"
  have r: "readable s k" and ah: "all_hit ks ?s1" using Cons.prems(6) by simp_all
  have kT: "k \<notin> set T" using Cons.prems(5) by auto
  from kv_get_hit[OF r Cons.prems(1)] obtain v where
    l1: "lruKeys ?s1 = (if n < length (remove1 k (lruKeys s) @ [k]) then tl (remove1 k (lruKeys s) @ [k])
                  else remove1 k (lruKeys s) @ [k])"
    and s1: "store ?s1 = (if n < length (remove1 k (lruKeys s) @ [k])
                  then AList.delete (hd (remove1 k (lruKeys s) @ [k])) (AList.update k v (store s))
                  else AList.update k v (store s))"
    by blast
  from touch_suffix(1)[OF Cons.prems(2,3) kT Cons.prems(4)]
    touch_suffix(2)[OF Cons.prems(2,3) kT Cons.prems(4), where v=v]
  obtain P1 where p1: "lruKeys ?s1 = P1 @ lastn n (T @ [k])"
    and sub1: "set (lastn n (T @ [k])) \<subseteq> fst ` set (store ?s1)"
    unfolding l1[symmetric] s1[symmetric] by blast
  have o1: "maxMemoryKeys (opts ?s1) = Some n" using Cons.prems(1) by (simp add: kv_get_frame)
  have ok1: "lru_ok n (lruKeys ?s1) (store ?s1)" by (rule kv_get_lru_ok[OF Cons.prems(1,2)])
  have d1: "distinct (lastn n (T @ [k]) @ ks)"
    using Cons.prems(5) distinct_lastn_append[of "T @ [k]" ks n] by simp
  note ih = Cons.IH[OF o1 ok1 p1 sub1 d1 ah]
  have e: "lastn n (lastn n (T @ [k]) @ ks) = lastn n (T @ k # ks)"
    using lastn_lastn_append[of n "T @ [k]" ks] by simp
  show ?case using ih by (simp add: e kv_get_frame)
qed

text \<open>
  C7. Under a cap of \<open>n\<close> keys, from a state whose cache has the shape \<open>lru_ok\<close> (a new
  engine has it), the cache holds at most \<open>n\<close> keys after any sequence of \<open>set\<close>,
  \<open>get\<close> and \<open>delete\<close>. After \<open>n + 1\<close> reads of distinct keys that all find their
  value, the cached keys are exactly the last \<open>n\<close> keys read, so the cache has \<open>n\<close>
  entries and the key read first is not among them; the Index is the same as before. The
  eviction in \<open>_updateLRU\<close> never changes the Index.
\<close>

theorem lru_cache_bounded:
  assumes cap: "maxMemoryKeys (opts s) = Some n" and ok: "lru_ok n (lruKeys s) (store s)"
  shows "length (store (run_ops ops s)) \<le> n
       \<and> (distinct ks \<and> length ks = Suc n \<and> all_hit ks s \<longrightarrow>
            fst ` set (store (read_all ks s)) = set (tl ks)
            \<and> length (store (read_all ks s)) = n
            \<and> hd ks \<notin> fst ` set (store (read_all ks s))
            \<and> index (read_all ks s) = index s)
       \<and> index (updateLRU k b s) = index s"
proof (intro conjI impI)
  show "length (store (run_ops ops s)) \<le> n"
    using run_ops_lru_ok[OF cap ok, of ops] by (rule lru_ok_length)
  show "index (updateLRU k b s) = index s" by (rule updateLRU_frame)
next
  assume a: "distinct ks \<and> length ks = Suc n \<and> all_hit ks s"
  let ?s' = "read_all ks s"
  from all_hit_read_all[OF cap ok, of "lruKeys s" "[]" ks] a
  obtain P' where p: "lruKeys ?s' = P' @ lastn n ks"
    and sub: "set (lastn n ks) \<subseteq> fst ` set (store ?s')"
    and ok': "lru_ok n (lruKeys ?s') (store ?s')" and ix: "index ?s' = index s"
    by auto
  have ln: "lastn n ks = tl ks" using a by (cases ks) (auto simp: lastn_def)
  have "length (lruKeys ?s') \<le> n" using ok' by (simp add: lru_ok_def)
  then have "P' = []" using p ln a by auto
  then have lru: "lruKeys ?s' = tl ks" using p ln by simp
  have keys: "fst ` set (store ?s') = set (tl ks)"
    using sub ok' lru ln by (auto simp: lru_ok_def)
  have "length (store ?s') = card (fst ` set (store ?s'))"
    using ok' distinct_card[of "map fst (store ?s')"] by (simp add: lru_ok_def)
  also have "\<dots> = card (set (tl ks))" by (simp add: keys)
  also have "\<dots> = n" using a distinct_card[of "tl ks"] by (simp add: distinct_tl)
  finally have len: "length (store ?s') = n" .
  have hd: "hd ks \<notin> set (tl ks)" using a by (cases ks) auto
  show "fst ` set (store ?s') = set (tl ks)" by (rule keys)
  show "length (store ?s') = n" by (rule len)
  show "hd ks \<notin> fst ` set (store ?s')" using hd keys by simp
  show "index ?s' = index s" by (rule ix)
qed

lemma readable_disk:
  assumes "\<not> isClosing s" and "k \<noteq> []" and "index_get s k = Some m"
    and "dataFd s" and "\<not> fails DataRead s"
    and "length (dataFile s) \<ge> m_offset m + m_size m"
    and "deserializeValue (take (m_size m) (drop (m_offset m) (dataFile s))) = Inr v"
  shows "readable s k"
  using assms by (simp add: readable_def readValue_def Let_def)

lemma deserialize_null: "deserializeValue [0, 0, 0, 0, 0] = Inr JNull"
  by (simp add: deserializeValue_def readUInt32LE_def TYPE_NULL_def)

lemma all_hit_two_keys: "all_hit [[0x61], [0x62]] kv_two_keys"
proof -
  let ?m = "\<lparr>m_offset = 0, m_size = 5, m_type = 0, m_expiry = None\<rparr>"
  let ?s1 = "snd (kv_get [0x61] kv_two_keys)"
  have b: "\<not> isClosing kv_two_keys" "dataFd kv_two_keys" "\<not> fails DataRead kv_two_keys"
    "dataFile kv_two_keys = [0, 0, 0, 0, 0]"
    "index_get kv_two_keys [0x61] = Some ?m" "index_get kv_two_keys [0x62] = Some ?m"
    by (simp_all add: kv_two_keys_def new_kv_def fails_def index_get_def)
  have r1: "readable kv_two_keys [0x61]"
    by (rule readable_disk[where m="?m" and v=JNull]) (simp_all add: b deserialize_null)
  have b1: "\<not> isClosing ?s1" "dataFd ?s1" "\<not> fails DataRead ?s1" "dataFile ?s1 = [0, 0, 0, 0, 0]"
    "index_get ?s1 [0x62] = Some ?m"
    using b by (simp_all add: kv_get_frame fails_def index_get_def)
  have r2: "readable ?s1 [0x62]"
    by (rule readable_disk[where m="?m" and v=JNull]) (simp_all add: b1 deserialize_null)
  show ?thesis using r1 r2 by simp
qed

theorem lru_cache_bounded_witness:
  "maxMemoryKeys (opts kv_two_keys) = Some 1
   \<and> lru_ok 1 (lruKeys kv_two_keys) (store kv_two_keys)
   \<and> distinct [[0x61], [0x62 :: 16 word]] \<and> length [[0x61], [0x62 :: 16 word]] = Suc 1
   \<and> all_hit [[0x61], [0x62]] kv_two_keys
   \<and> length (store (run_ops [OpGet [0x61], OpSet [0x62] JNull None, OpDelete [0x61]] kv_two_keys)) \<le> 1
   \<and> fst ` set (store (read_all [[0x61], [0x62]] kv_two_keys)) = {[0x62]}
   \<and> length (store (read_all [[0x61], [0x62]] kv_two_keys)) = 1
   \<and> [0x61] \<notin> fst ` set (store (read_all [[0x61], [0x62]] kv_two_keys))
   \<and> index (read_all [[0x61], [0x62]] kv_two_keys) = index kv_two_keys"
proof -
  have c: "maxMemoryKeys (opts kv_two_keys) = Some 1"
    by (simp add: kv_two_keys_def new_kv_def defaultOptions_def)
  have o: "lru_ok 1 (lruKeys kv_two_keys) (store kv_two_keys)"
    by (simp add: kv_two_keys_def new_kv_def lru_ok_def)
  have d: "distinct [[0x61], [0x62 :: 16 word]] \<and> length [[0x61], [0x62 :: 16 word]] = Suc 1
           \<and> all_hit [[0x61], [0x62]] kv_two_keys"
    using all_hit_two_keys by simp
  from lru_cache_bounded [OF c o,
      of "[OpGet [0x61], OpSet [0x62] JNull None, OpDelete [0x61]]" "[[0x61], [0x62]]"] d
  show ?thesis
    using c o by simp
qed

lemma unsupported_serialize: "unsupported v \<Longrightarrow> serializeValue v = Inl UnsupportedValueType"
  by (cases v) (simp_all add: serializeValue_def)

lemma update_keys_present: "map_of al k = Some m \<Longrightarrow> map fst (AList.update k v al) = map fst al"
  using map_of_SomeD[of al k m] by (force simp: update_keys)

lemma index_frame_parts [simp]:
  "index (scheduleIndexFlush s) = index s" "index (addChange k op mo s) = index s"
  "index (clearTimeout h s) = index s"
  by (simp_all add: scheduleIndexFlush_def addChange_def clearTimeout_def)

lemma index_keys_parts:
  "map fst (index (drop_expiry_update k op s)) = map fst (index s)"
  by (simp add: drop_expiry_update_def Let_def index_set_def index_get_def update_keys_present
      split: option.splits)

lemma index_keys_setTTL: "map fst (index (setTTL k t b s)) = map fst (index s)"
  by (simp add: setTTL_def Let_def index_keys_parts index_set_def
      index_get_def update_keys_present split: option.splits)

lemma index_keys_set_ttl: "map fst (index (set_ttl k t s)) = map fst (index s)"
  by (simp add: set_ttl_def Let_def index_keys_setTTL index_keys_parts
      split: option.splits)

lemma set_cache_dirty: "k \<in> set (dirtyDataKeys (set_cache k v s))"
  by (simp add: set_cache_def Let_def set_add_def)

lemma set_cache_keeps:
  assumes "cache_keeps s"
  shows "map_of (store (set_cache k v s)) k = Some v"
proof (cases "maxMemoryKeys (opts s)")
  case None
  then show ?thesis by (simp add: set_cache_def Let_def updateLRU_def update_conv')
next
  case (Some n)
  then have n: "0 < n" and d: "distinct (lruKeys s)" using assms by (simp_all add: cache_keeps_def)
  let ?pushed = "remove1 k (lruKeys s) @ [k]"
  have h: "n < length ?pushed \<Longrightarrow> hd ?pushed \<noteq> k"
  proof -
    assume "n < length ?pushed"
    then have "remove1 k (lruKeys s) \<noteq> []" using n by auto
    then have "hd ?pushed \<in> set (remove1 k (lruKeys s))" by (cases "remove1 k (lruKeys s)") auto
    then show "hd ?pushed \<noteq> k" using d by auto
  qed
  show ?thesis using Some h
    by (auto simp: set_cache_def Let_def updateLRU_def update_conv' delete_conv)
qed


lemma emit_error_Inl: "emit_error s = (Inl e, s') \<Longrightarrow> e = Unhandled"
  by (simp add: emit_error_def split: if_splits)

lemma flushToWAL_catch_Inl: "flushToWAL_catch cs s = (Inl e, s') \<Longrightarrow> e = Unhandled"
  by (auto simp: flushToWAL_catch_def split: prod.splits sum.splits dest: emit_error_Inl)

lemma wal_entries_Inl: "wal_entries pcs = Inl e \<Longrightarrow> e = TypeError"
  by (induction pcs arbitrary: e)
     (auto simp: wal_entry_def stringify_meta_def Let_def split: sum.splits if_splits option.splits)

lemma flushToWAL_gen_Inl:
  "flushToWAL_gen ck f s = (Inl e, s') \<Longrightarrow> e = TypeError \<or> e = Unhandled"
  by (auto simp: flushToWAL_gen_def Let_def split: if_splits sum.splits prod.splits
      dest: flushToWAL_catch_Inl wal_entries_Inl)

lemma set_flush_Inl: "fst (set_flush k v s) = Inl e \<Longrightarrow> e = TypeError \<or> e = Unhandled"
  by (auto simp: set_flush_def Let_def flushDataToStorage_stuck flushIndexManagerToWAL_def
      flushToWAL_def split: if_splits prod.splits sum.splits dest: flushToWAL_gen_Inl)

lemma set_flush_nosync: "\<not> syncOnWrite (opts s) \<Longrightarrow> fst (set_flush k v s) = Inr True"
  by (simp add: set_flush_def Let_def scheduleDataFlush_fields)

text \<open>
  C6, as amended. \<open>set\<close> does not look at the type of the value. For a value that
  \<open>serializeValue\<close> rejects with the unsupported-type error, a non-empty key and an
  engine that is not closing: \<open>set\<close> does not fail with that error, and without
  sync-on-write it returns \<open>true\<close>; the key is in the dirty-data set afterwards and, when
  the cache keeps what is put into it (no cap, or a positive cap and a recency list without
  repetition), the value is in the cache; the keys of the Index and the Data Log are
  unchanged.
\<close>

theorem set_accepts_unsupported_value:
  assumes "unsupported v" and "\<not> isClosing s" and "k \<noteq> []"
  shows "serializeValue v = Inl UnsupportedValueType
       \<and> fst (kv_set k v ttlOption s) \<noteq> Inl UnsupportedValueType
       \<and> (\<not> syncOnWrite (opts s) \<longrightarrow> fst (kv_set k v ttlOption s) = Inr True)
       \<and> (cache_keeps s \<longrightarrow> map_of (store (snd (kv_set k v ttlOption s))) k = Some v)
       \<and> k \<in> set (dirtyDataKeys (snd (kv_set k v ttlOption s)))
       \<and> map fst (index (snd (kv_set k v ttlOption s))) = map fst (index s)
       \<and> dataFile (snd (kv_set k v ttlOption s)) = dataFile s"
proof -
  let ?st = "set_ttl k ttlOption (set_cache k v s)"
  have kv: "kv_set k v ttlOption s = set_flush k v ?st"
    using assms(2,3) by (simp add: kv_set_def)
  have o: "opts ?st = opts s" by (simp add: set_ttl_frame set_cache_fields)
  have e: "fst (set_flush k v ?st) \<noteq> Inl UnsupportedValueType"
    using set_flush_Inl[of k v ?st UnsupportedValueType] by auto
  have n: "\<not> syncOnWrite (opts s) \<longrightarrow> fst (set_flush k v ?st) = Inr True"
    using set_flush_nosync[of ?st k v] o by simp
  show ?thesis
    unfolding kv
    using unsupported_serialize[OF assms(1)] e n set_cache_keeps[of s k v]
      set_cache_dirty[of k v s]
    by (simp add: set_flush_fields set_ttl_frame index_keys_set_ttl set_cache_fields)
qed

text \<open>
  C6 as stated fails: \<open>set('a', Symbol())\<close> on a new engine returns \<open>true\<close> and adds the
  key to the cache and to the dirty-data set, which were empty.
\<close>

theorem set_unsupported_value_counterexample:
  "unsupported JSymbol
   \<and> fst (kv_set [0x61] JSymbol None (new_kv defaultOptions 0)) = Inr True
   \<and> store (new_kv defaultOptions 0) = []
   \<and> map_of (store (snd (kv_set [0x61] JSymbol None (new_kv defaultOptions 0)))) [0x61] = Some JSymbol
   \<and> dirtyDataKeys (new_kv defaultOptions 0) = []
   \<and> [0x61] \<in> set (dirtyDataKeys (snd (kv_set [0x61] JSymbol None (new_kv defaultOptions 0))))"
proof -
  let ?s = "new_kv defaultOptions 0"
  let ?st = "set_ttl [0x61] None (set_cache [0x61] JSymbol ?s)"
  have kv: "kv_set [0x61] JSymbol None ?s = set_flush [0x61] JSymbol ?st"
    by (simp add: kv_set_def new_kv_def)
  have o: "\<not> syncOnWrite (opts ?st)"
    by (simp add: set_ttl_frame set_cache_fields) (simp add: new_kv_def defaultOptions_def)
  have k: "cache_keeps ?s" by (simp add: cache_keeps_def new_kv_def defaultOptions_def)
  show ?thesis
    unfolding kv
    using set_flush_nosync[OF o] set_cache_keeps[OF k, of "[0x61]" JSymbol]
      set_cache_dirty[of "[0x61]" JSymbol ?s]
    by (simp add: set_flush_fields set_ttl_frame) (simp add: new_kv_def)
qed

theorem set_accepts_unsupported_value_witness:
  "unsupported JSymbol \<and> \<not> isClosing kv_two_keys \<and> [0x61] \<noteq> ([] :: key)
   \<and> \<not> syncOnWrite (opts kv_two_keys) \<and> cache_keeps kv_two_keys
   \<and> serializeValue JSymbol = Inl UnsupportedValueType
   \<and> fst (kv_set [0x61] JSymbol None kv_two_keys) = Inr True
   \<and> map_of (store (snd (kv_set [0x61] JSymbol None kv_two_keys))) [0x61] = Some JSymbol
   \<and> [0x61] \<in> set (dirtyDataKeys (snd (kv_set [0x61] JSymbol None kv_two_keys)))
   \<and> map fst (index (snd (kv_set [0x61] JSymbol None kv_two_keys))) = [[0x61], [0x62]]
   \<and> dataFile (snd (kv_set [0x61] JSymbol None kv_two_keys)) = [0, 0, 0, 0, 0]"
proof -
  have u: "unsupported JSymbol" by simp
  have c: "\<not> isClosing kv_two_keys" by (simp add: kv_two_keys_def new_kv_def)
  have k: "[0x61] \<noteq> ([] :: key)" by simp
  have n: "\<not> syncOnWrite (opts kv_two_keys)"
    by (simp add: kv_two_keys_def new_kv_def defaultOptions_def)
  have ck: "cache_keeps kv_two_keys"
    by (simp add: cache_keeps_def kv_two_keys_def new_kv_def defaultOptions_def)
  have i: "map fst (index kv_two_keys) = [[0x61], [0x62]]" "dataFile kv_two_keys = [0, 0, 0, 0, 0]"
    by (simp_all add: kv_two_keys_def)
  from set_accepts_unsupported_value [OF u c k, of None]
  show ?thesis
    using u c n ck i by simp
qed

section \<open>Wasted space\<close>





lemma same_log_refl [simp]: "same_log s s"
  by (simp add: same_log_def)



lemma same_log_upd [simp]:
  "same_log s (s'\<lparr>stats := st\<rparr>) = same_log s s'"
  "same_log s (s'\<lparr>events := ev\<rparr>) = same_log s s'"
  "same_log s (s'\<lparr>store := sto\<rparr>) = same_log s s'"
  "same_log s (s'\<lparr>lruKeys := lk\<rparr>) = same_log s s'"
  "same_log s (s'\<lparr>dirtyDataKeys := dk\<rparr>) = same_log s s'"
  "same_log s (s'\<lparr>ttlMap := tt\<rparr>) = same_log s s'"
  "same_log s (s'\<lparr>timers := tms\<rparr>) = same_log s s'"
  "same_log s (s'\<lparr>nextTimer := nt\<rparr>) = same_log s s'"
  "same_log s (s'\<lparr>pendingChanges := pc\<rparr>) = same_log s s'"
  "same_log s (s'\<lparr>isClosing := b1\<rparr>) = same_log s s'"
  "same_log s (s'\<lparr>isCompacting := b2\<rparr>) = same_log s s'"
  "same_log s (s'\<lparr>flushDataPending := b3\<rparr>) = same_log s s'"
  "same_log s (s'\<lparr>flushIndexPending := b4\<rparr>) = same_log s s'"
  "same_log s (s'\<lparr>dataFd := b5\<rparr>) = same_log s s'"
  "same_log s (s'\<lparr>walFd := b6\<rparr>) = same_log s s'"
  "same_log s (s'\<lparr>walFile := wfl\<rparr>) = same_log s s'"
  "same_log s (s'\<lparr>compactingFile := cf\<rparr>) = same_log s s'"
  "same_log s (s'\<lparr>faults := F\<rparr>) = same_log s s'"
  "same_log s (s'\<lparr>now := t\<rparr>) = same_log s s'"
  "same_log s (s'\<lparr>errorListener := b7\<rparr>) = same_log s s'"
  by (simp_all add: same_log_def)

lemma same_log_emit [simp]: "same_log s (emit e s') = same_log s s'"
  by (simp add: emit_def)

lemma same_log_small [simp]:
  "same_log s (scheduleIndexFlush s') = same_log s s'"
  "same_log s (scheduleDataFlush s') = same_log s s'"
  "same_log s (clearTimeout h s') = same_log s s'"
  "same_log s (addChange k op mo s') = same_log s s'"
  "same_log s (updateLRU k b s') = same_log s s'"
  by (simp_all add: scheduleIndexFlush_def scheduleDataFlush_def clearTimeout_def addChange_def
      updateLRU_def Let_def split: option.splits)






lemma same_log_sizes: "same_log s s' \<Longrightarrow> same_sizes s s'"
  by (simp add: same_log_def same_sizes_def)










lemma flushDataToStorage_log: "same_log s0 s \<Longrightarrow> same_log s0 (snd (flushDataToStorage f s))"
  by (simp add: flushDataToStorage_stuck)







lemma readValue_log [simp]: "same_log s0 (snd (readValue m s)) = same_log s0 s"
  by (simp add: readValue_def Let_def)



lemma same_log_emit_error [simp]: "same_log s (snd (emit_error s')) = same_log s s'"
  by simp





lemma close_submodules_log [simp]: "same_log s (close_submodules s') = same_log s s'"
  by (simp add: close_submodules_def Let_def)



lemma data_inv_upd [simp]:
  "data_inv (s\<lparr>ttlMap := tt\<rparr>) = data_inv s"
  "data_inv (s\<lparr>timers := tms\<rparr>) = data_inv s"
  "data_inv (s\<lparr>faults := F\<rparr>) = data_inv s"
  "data_inv (s\<lparr>now := t\<rparr>) = data_inv s"
  "data_inv (s\<lparr>dirtyDataKeys := dk\<rparr>) = data_inv s"
  "data_inv (s\<lparr>stats := st\<rparr>) = data_inv s"
  "data_inv (s\<lparr>pendingChanges := pc\<rparr>) = data_inv s"
  "data_inv (s\<lparr>events := ev\<rparr>) = data_inv s"
  "data_inv (s\<lparr>errorListener := b\<rparr>) = data_inv s"
  by (simp_all add: data_inv_def)

lemma data_inv_emit [simp]: "data_inv (emit e s) = data_inv s"
  by (simp add: emit_def)




lemma data_inv_schedule [simp]: "data_inv (scheduleIndexFlush s) = data_inv s"
  by (simp add: data_inv_def scheduleIndexFlush_def Let_def)







section \<open>Properties of the WAL replay\<close>

lemma replay_step_truncated:
  "truncated_at walBuffer offset \<Longrightarrow> replay_step walBuffer offset s = (Break, emit Warn s)"
  by (auto simp: truncated_at_def replay_step_def Let_def split: sum.splits if_splits)






lemma set_a_pending:
  "pendingChanges (set_ttl [0x61] None (set_cache [0x61] JNull kv_ttl_two))
     = [([0x61], \<lparr>c_op = None,
                  c_meta = Some \<lparr>m_offset = 0, m_size = 5, m_type = 0, m_expiry = None\<rparr>\<rparr>)]"
  "index (set_ttl [0x61] None (set_cache [0x61] JNull kv_ttl_two))
     = [([0x61], \<lparr>m_offset = 0, m_size = 5, m_type = 0, m_expiry = None\<rparr>),
        ([0x62], \<lparr>m_offset = 5, m_size = 5, m_type = 0, m_expiry = None\<rparr>)]"
  "store (set_ttl [0x61] None (set_cache [0x61] JNull kv_ttl_two)) = [([0x61], JNull)]"
  "opts (set_ttl [0x61] None (set_cache [0x61] JNull kv_ttl_two)) = defaultOptions"
  "isClosing (set_ttl [0x61] None (set_cache [0x61] JNull kv_ttl_two)) = False"
  "walFd (set_ttl [0x61] None (set_cache [0x61] JNull kv_ttl_two))"
  "faults (set_ttl [0x61] None (set_cache [0x61] JNull kv_ttl_two)) = {}"
  "walFile (set_ttl [0x61] None (set_cache [0x61] JNull kv_ttl_two)) = []"
  "walSizeBytes (stats (set_ttl [0x61] None (set_cache [0x61] JNull kv_ttl_two))) = 0"
  "isCheckpointing (set_ttl [0x61] None (set_cache [0x61] JNull kv_ttl_two)) = False"
  by (simp_all add: set_ttl_def set_cache_def kv_ttl_two_def new_kv_def defaultOptions_def
      updateLRU_def set_add_def ttl_or_default_def truthy_def clearTimeout_def Let_def
      index_has_def map_has_def index_get_def index_set_def addChange_def
      scheduleIndexFlush_def drop_expiry_update_def initial_stats_def)

lemma set_flush_nosync_state:
  "\<not> syncOnWrite (opts s) \<Longrightarrow> set_flush k v s = (Inr True, emit (EvSet k v) (scheduleDataFlush s))"
  by (simp add: set_flush_def Let_def scheduleDataFlush_def)

lemma after_set_a:
  defines "s1 \<equiv> snd (kv_set [0x61] JNull None kv_ttl_two)"
  shows "pendingChanges s1
     = [([0x61], \<lparr>c_op = None,
                  c_meta = Some \<lparr>m_offset = 0, m_size = 5, m_type = 0, m_expiry = None\<rparr>\<rparr>)]"
    and "index s1
     = [([0x61], \<lparr>m_offset = 0, m_size = 5, m_type = 0, m_expiry = None\<rparr>),
        ([0x62], \<lparr>m_offset = 5, m_size = 5, m_type = 0, m_expiry = None\<rparr>)]"
    and "store s1 = [([0x61], JNull)]" and "opts s1 = defaultOptions" and "\<not> isClosing s1"
    and "walFd s1" and "faults s1 = {}" and "walFile s1 = []"
    and "walSizeBytes (stats s1) = 0" and "\<not> isCheckpointing s1"
proof -
  let ?st = "set_ttl [0x61] None (set_cache [0x61] JNull kv_ttl_two)"
  have c: "\<not> isClosing kv_ttl_two" by (simp add: kv_ttl_two_def new_kv_def)
  have n: "\<not> syncOnWrite (opts ?st)" by (simp add: set_a_pending defaultOptions_def)
  have s1: "s1 = emit (EvSet [0x61] JNull) (scheduleDataFlush ?st)"
    using c by (simp add: s1_def kv_set_def set_flush_nosync_state[OF n])
  show "pendingChanges s1
     = [([0x61], \<lparr>c_op = None,
                  c_meta = Some \<lparr>m_offset = 0, m_size = 5, m_type = 0, m_expiry = None\<rparr>\<rparr>)]"
    and "index s1
     = [([0x61], \<lparr>m_offset = 0, m_size = 5, m_type = 0, m_expiry = None\<rparr>),
        ([0x62], \<lparr>m_offset = 5, m_size = 5, m_type = 0, m_expiry = None\<rparr>)]"
    and "store s1 = [([0x61], JNull)]" and "opts s1 = defaultOptions" and "\<not> isClosing s1"
    and "walFd s1" and "faults s1 = {}" and "walFile s1 = []"
    and "walSizeBytes (stats s1) = 0" and "\<not> isCheckpointing s1"
    by (simp_all add: s1 emit_def scheduleDataFlush_def set_a_pending)
qed

lemma after_delete_b:
  defines "s2 \<equiv> snd (kv_delete [0x62] (snd (kv_set [0x61] JNull None kv_ttl_two)))"
  shows "pendingChanges s2
     = [([0x61], \<lparr>c_op = None,
                  c_meta = Some \<lparr>m_offset = 0, m_size = 5, m_type = 0, m_expiry = None\<rparr>\<rparr>),
        ([0x62], \<lparr>c_op = Some 2, c_meta = None\<rparr>)]"
    and "index s2 = [([0x61], \<lparr>m_offset = 0, m_size = 5, m_type = 0, m_expiry = None\<rparr>)]"
    and "walFd s2" and "faults s2 = {}" and "walFile s2 = []"
    and "walSizeBytes (stats s2) = 0" and "\<not> isCheckpointing s2"
    and "walSizeThreshold (opts s2) = 5242880"
proof -
  let ?s1 = "snd (kv_set [0x61] JNull None kv_ttl_two)"
  note a = after_set_a
  have d: "pendingChanges (delete_entries [0x62] ?s1)
     = [([0x61], \<lparr>c_op = None,
                  c_meta = Some \<lparr>m_offset = 0, m_size = 5, m_type = 0, m_expiry = None\<rparr>\<rparr>),
        ([0x62], \<lparr>c_op = Some 2, c_meta = None\<rparr>)]"
    "index (delete_entries [0x62] ?s1)
       = [([0x61], \<lparr>m_offset = 0, m_size = 5, m_type = 0, m_expiry = None\<rparr>)]"
    "opts (delete_entries [0x62] ?s1) = defaultOptions"
    "walFd (delete_entries [0x62] ?s1)" "faults (delete_entries [0x62] ?s1) = {}"
    "walFile (delete_entries [0x62] ?s1) = []"
    "walSizeBytes (stats (delete_entries [0x62] ?s1)) = 0"
    "\<not> isCheckpointing (delete_entries [0x62] ?s1)"
    by (simp_all add: delete_entries_def Let_def map_has_def index_get_def a addChange_def
        index_delete_def)
  have k: "kv_delete [0x62] ?s1 = delete_flush [0x62] (delete_entries [0x62] ?s1)"
    by (simp add: kv_delete_def a index_has_def map_has_def)
  show "pendingChanges s2
     = [([0x61], \<lparr>c_op = None,
                  c_meta = Some \<lparr>m_offset = 0, m_size = 5, m_type = 0, m_expiry = None\<rparr>\<rparr>),
        ([0x62], \<lparr>c_op = Some 2, c_meta = None\<rparr>)]"
    and "index s2 = [([0x61], \<lparr>m_offset = 0, m_size = 5, m_type = 0, m_expiry = None\<rparr>)]"
    and "walFd s2" and "faults s2 = {}" and "walFile s2 = []"
    and "walSizeBytes (stats s2) = 0" and "\<not> isCheckpointing s2"
    and "walSizeThreshold (opts s2) = 5242880"
    unfolding s2_def k
    by (simp_all add: delete_flush_def Let_def d defaultOptions_def scheduleIndexFlush_def emit_def)
qed

lemma wal_entries_undefined_op:
  "wal_entries [([0x61], \<lparr>c_op = None,
                  c_meta = Some \<lparr>m_offset = 0, m_size = 5, m_type = 0, m_expiry = None\<rparr>\<rparr>),
                ([0x62], \<lparr>c_op = Some 2, c_meta = None\<rparr>)]
     = Inr [[0, 1, 0, 0, 0], [0x61], [2, 1, 0, 0, 0], [0x62]]"
  by (simp add: wal_entry_def Let_def enc1_def writeUInt8_def writeUInt32LE_def WAL_OP_SET_def
      byte_def)

lemma flushToWAL_writes:
  assumes "wal_entries (pendingChanges s) = Inr bufs" and "bufs \<noteq> []"
    and "walFd s" and "faults s = {}"
    and "isCheckpointing s \<or> walSizeBytes (stats s) + length (concat bufs) < walSizeThreshold (opts s)"
  shows "fst (flushToWAL f s) = Inr True"
    and "walFile (snd (flushToWAL f s)) = walFile s @ concat bufs"
proof -
  have ne: "pendingChanges s \<noteq> []" using assms(1,2) by auto
  show "fst (flushToWAL f s) = Inr True" "walFile (snd (flushToWAL f s)) = walFile s @ concat bufs"
    using assms ne
    by (auto simp: flushToWAL_def flushToWAL_gen_def Let_def fails_def append_write_def emit_def
        checkIfCheckpointNeededBySize_gen_def)
qed

text \<open>
  C3 fails on a batch the engine itself queues. \<open>set('a', null)\<close> on a key with a running
  TTL and no default TTL queues its change with \<open>IndexManager.WAL_OP_SET\<close>, which is
  \<open>undefined\<close>; \<open>delete('b')\<close> follows. \<open>flushToWAL\<close> writes the first change with op
  byte 0 and no metadata. The replay of that WAL over the Index the batch started from
  stops at the first byte with a warning: the expiry of \<open>a\<close> is not removed and \<open>b\<close> is
  not deleted, while the Index the batch left in memory holds \<open>a\<close> without expiry and
  nothing else.
\<close>

theorem wal_undefined_op_not_replayed:
  "pendingChanges (snd (kv_delete [0x62] (snd (kv_set [0x61] JNull None kv_ttl_two))))
     = [([0x61], \<lparr>c_op = None,
                  c_meta = Some \<lparr>m_offset = 0, m_size = 5, m_type = 0, m_expiry = None\<rparr>\<rparr>),
        ([0x62], \<lparr>c_op = Some 2, c_meta = None\<rparr>)]
   \<and> index (snd (kv_delete [0x62] (snd (kv_set [0x61] JNull None kv_ttl_two))))
       = [([0x61], \<lparr>m_offset = 0, m_size = 5, m_type = 0, m_expiry = None\<rparr>)]
   \<and> fst (flushToWAL True (snd (kv_delete [0x62] (snd (kv_set [0x61] JNull None kv_ttl_two)))))
       = Inr True
   \<and> walFile (snd (flushToWAL True (snd (kv_delete [0x62] (snd (kv_set [0x61] JNull None kv_ttl_two))))))
       = wal_undefined_op
   \<and> replay_loop wal_undefined_op 0 0 kv_ttl_two = (Some (Inr 0), emit Warn kv_ttl_two)
   \<and> index (emit Warn kv_ttl_two)
       = [([0x61], \<lparr>m_offset = 0, m_size = 5, m_type = 0, m_expiry = Some 500\<rparr>),
          ([0x62], \<lparr>m_offset = 5, m_size = 5, m_type = 0, m_expiry = None\<rparr>)]"
proof -
  let ?s2 = "snd (kv_delete [0x62] (snd (kv_set [0x61] JNull None kv_ttl_two)))"
  note d = after_delete_b
  have w: "wal_entries (pendingChanges ?s2) = Inr [[0, 1, 0, 0, 0], [0x61], [2, 1, 0, 0, 0], [0x62]]"
    unfolding d(1) by (rule wal_entries_undefined_op)
  have th: "isCheckpointing ?s2
            \<or> walSizeBytes (stats ?s2) + length (concat [[0, 1, 0, 0, 0], [0x61], [2, 1, 0, 0, 0], [0x62 :: byte]])
                < walSizeThreshold (opts ?s2)"
    by (simp add: d)
  note f = flushToWAL_writes [OF w _ d(3) d(4) th, of True]
  have f1: "fst (flushToWAL True ?s2) = Inr True" using f(1) by simp
  have f2: "walFile (snd (flushToWAL True ?s2)) = wal_undefined_op"
    using f(2) by (simp add: d wal_undefined_op_def)
  have t: "truncated_at wal_undefined_op 0"
    by (simp add: truncated_at_def wal_undefined_op_def WAL_ENTRY_HEADER_SIZE_def
        readUInt32LE_def WAL_OP_SET_def WAL_OP_DELETE_def)
  have ne: "wal_undefined_op \<noteq> []" by (simp add: wal_undefined_op_def)
  have r: "replay_loop wal_undefined_op 0 0 kv_ttl_two = (Some (Inr 0), emit Warn kv_ttl_two)"
    by (subst replay_loop.simps) (simp add: replay_step_truncated[OF t] ne)
  have i: "index (emit Warn kv_ttl_two)
       = [([0x61], \<lparr>m_offset = 0, m_size = 5, m_type = 0, m_expiry = Some 500\<rparr>),
          ([0x62], \<lparr>m_offset = 5, m_size = 5, m_type = 0, m_expiry = None\<rparr>)]"
    by (simp add: emit_def kv_ttl_two_def)
  show ?thesis
    using d(1,2) f1 f2 r i by blast
qed

end
